theory Spec2Isabelle
  imports Main "HOL-Library.AList"
begin

section \<open>Strings and numbers as the JavaScript source uses them\<close>

text \<open>
  The dispatcher \<^verbatim>\<open>bitFetch\<close> of \<^verbatim>\<open>src/index.js\<close> works on strings
  (\<^verbatim>\<open>startsWith\<close>, \<^verbatim>\<open>endsWith\<close>, \<^verbatim>\<open>includes\<close>, \<^verbatim>\<open>split\<close>,
  \<^verbatim>\<open>slice\<close>, \<^verbatim>\<open>join\<close>) and renders numbers through template literals.
  Strings are \<^typ>\<open>string\<close>; \<^verbatim>\<open>s.slice(n)\<close> is \<^term>\<open>drop n s\<close>.
\<close>

definition startsWith :: "string \<Rightarrow> string \<Rightarrow> bool" where
  "startsWith s p = (take (length p) s = p)"

definition endsWith :: "string \<Rightarrow> string \<Rightarrow> bool" where
  "endsWith s p = (length p \<le> length s \<and> drop (length s - length p) s = p)"

fun str_includes :: "string \<Rightarrow> string \<Rightarrow> bool" where
  "str_includes [] p = (p = [])"
| "str_includes (c # cs) p = (startsWith (c # cs) p \<or> str_includes cs p)"

text \<open>\<^verbatim>\<open>s.split(sep)\<close> for a separator of one character: never empty, \<^verbatim>\<open>''.split(sep)\<close> is \<^verbatim>\<open>['']\<close>.\<close>

fun str_split :: "char \<Rightarrow> string \<Rightarrow> string list" where
  "str_split sep [] = [[]]"
| "str_split sep (c # cs) =
     (if c = sep then [] # str_split sep cs
      else (case str_split sep cs of
              [] \<Rightarrow> [[c]]
            | r # rs \<Rightarrow> (c # r) # rs))"

fun join :: "string \<Rightarrow> string list \<Rightarrow> string" where
  "join sep [] = []"
| "join sep [x] = x"
| "join sep (x # y # ys) = x @ sep @ join sep (y # ys)"

definition digit :: "nat \<Rightarrow> char" where
  "digit d = (if d = 0 then CHR ''0'' else if d = 1 then CHR ''1'' else if d = 2 then CHR ''2''
     else if d = 3 then CHR ''3'' else if d = 4 then CHR ''4'' else if d = 5 then CHR ''5''
     else if d = 6 then CHR ''6'' else if d = 7 then CHR ''7'' else if d = 8 then CHR ''8''
     else CHR ''9'')"

text \<open>The decimal text of a number, as a template literal \<^verbatim>\<open>`${n}`\<close> renders an integer.\<close>

fun show_nat :: "nat \<Rightarrow> string" where
  "show_nat n = (if n < 10 then [digit n] else show_nat (n div 10) @ [digit (n mod 10)])"

declare show_nat.simps [simp del]

definition show_int :: "int \<Rightarrow> string" where
  "show_int i = (if i < 0 then CHR ''-'' # show_nat (nat (- i)) else show_nat (nat i))"

definition isDigit :: "char \<Rightarrow> bool" where
  "isDigit c = (c \<in> set ''0123456789'')"

definition isWordChar :: "char \<Rightarrow> bool" where
  "isWordChar c = (c \<in> set ''abcdefghijklmnopqrstuvwxyzABCDEFGHIJKLMNOPQRSTUVWXYZ0123456789_'')"

text \<open>\<^verbatim>\<open>NUMBER_REGEX = /^\d+$/\<close> and \<^verbatim>\<open>PROTOCOL_REGEX = /^\w+:\/\//\<close>.\<close>

definition NUMBER_REGEX_test :: "string \<Rightarrow> bool" where
  "NUMBER_REGEX_test s = (s \<noteq> [] \<and> list_all isDigit s)"

definition PROTOCOL_REGEX_match :: "string \<Rightarrow> bool" where
  "PROTOCOL_REGEX_match u =
     (takeWhile isWordChar u \<noteq> [] \<and> startsWith (dropWhile isWordChar u) ''://'')"

section \<open>Constants of the module\<close>

definition DEFAULT_TIMEOUT :: nat where "DEFAULT_TIMEOUT = 5000"
definition NOT_WRITABLE_ERROR :: string where "NOT_WRITABLE_ERROR = ''Archive not writable''"
definition READABLE_ALLOW :: "string list" where "READABLE_ALLOW = [''GET'', ''HEAD'']"
definition WRITABLE_ALLOW :: "string list" where "WRITABLE_ALLOW = [''PUT'', ''POST'', ''DELETE'']"
definition ALL_ALLOW :: "string list" where "ALL_ALLOW = READABLE_ALLOW @ WRITABLE_ALLOW"
definition SPECIAL_FOLDER :: string where "SPECIAL_FOLDER = ''/$/''"
definition TAGS_FOLDER_NAME :: string where "TAGS_FOLDER_NAME = ''tags/''"
definition TAGS_FOLDER :: string where "TAGS_FOLDER = SPECIAL_FOLDER @ TAGS_FOLDER_NAME"
definition EXTENSIONS_FOLDER_NAME :: string where "EXTENSIONS_FOLDER_NAME = ''extensions/''"
definition EXTENSIONS_FOLDER :: string where "EXTENSIONS_FOLDER = SPECIAL_FOLDER @ EXTENSIONS_FOLDER_NAME"
definition EXTENSION_EVENT :: string where "EXTENSION_EVENT = ''extension-message''"
definition PEER_OPEN :: string where "PEER_OPEN = ''peer-open''"
definition PEER_REMOVE :: string where "PEER_REMOVE = ''peer-remove''"

section \<open>Data: requests, responses, the archive handle and its collaborators\<close>

text \<open>
  A thrown JavaScript value. JavaScript lets any value be thrown, and an injected
  collaborator may throw any. The source does three things with a caught value: it reads
  \<^verbatim>\<open>e.message\<close> and \<^verbatim>\<open>e.stack\<close> (the two \<^verbatim>\<open>catch\<close> blocks of \<^verbatim>\<open>bitFetch\<close>) and
  tests \<^verbatim>\<open>if (err)\<close> (the callback of \<^verbatim>\<open>metadata.update\<close>). For these a value is one of:
  \<^item> \<open>Error m\<close>: a value whose \<^verbatim>\<open>message\<close> is the string \<open>m\<close>, such as an
    \<^verbatim>\<open>Error\<close> object; a \<^verbatim>\<open>TypeError\<close> raised by the runtime is one, with a message of
    the runtime;
  \<^item> \<open>Truthy\<close>: any other truthy value (its \<^verbatim>\<open>message\<close> is not a string);
  \<^item> \<open>Falsy\<close>: \<^verbatim>\<open>0\<close>, \<^verbatim>\<open>''\<close>, \<^verbatim>\<open>false\<close> or \<^verbatim>\<open>NaN\<close>;
  \<^item> \<open>Nullish\<close>: \<^verbatim>\<open>null\<close> or \<^verbatim>\<open>undefined\<close>, on which reading a property throws
    a \<^verbatim>\<open>TypeError\<close>.
  The \<^verbatim>\<open>stack\<close> of a value is sent back as a body and is kept symbolic (\<open>ErrorStack\<close>
  below).
\<close>

datatype exn = Error string | Truthy | Falsy | Nullish

text \<open>\<^verbatim>\<open>e.message\<close> when it is a string, for a value that is not nullish.\<close>

fun thrownMessage :: "exn \<Rightarrow> string option" where
  "thrownMessage (Error m) = Some m"
| "thrownMessage _ = None"

type_synonym 'a result = "exn + 'a"

text \<open>
  The object \<^verbatim>\<open>responseHeaders\<close>: property assignment updates a property in place or
  appends a new one, which is \<^const>\<open>AList.update\<close>; a property is read with \<^const>\<open>map_of\<close>.
\<close>

type_synonym hdrs = "(string \<times> string) list"

record peer =
  remotePublicKey :: "string option"
  remoteExtensions :: "string list option option"
  remoteAddress :: string
  remoteType :: string
  stats :: string

record peerInfo =
  pi_remotePublicKey :: string
  pi_remoteType :: string
  pi_remoteAddress :: string
  pi_stats :: string

record stat =
  isDirectory :: bool
  stat_size :: nat
  mtime :: string

text \<open>What \<^verbatim>\<open>archive.stat(path)\<close> resolves to: one stat object or an array of them.\<close>

datatype stats_result = StatOne stat | StatMany "stat list"

text \<open>What \<^verbatim>\<open>parseRange(size, header)\<close> of the package \<^verbatim>\<open>range-parser\<close> returns:
  the numbers \<^verbatim>\<open>-1\<close> (unsatisfiable) and \<^verbatim>\<open>-2\<close> (malformed), or an array of
  \<^verbatim>\<open>{start, end}\<close> carrying a \<^verbatim>\<open>type\<close> property.\<close>

datatype range_result =
    RangeUnsatisfiable
  | RangeMalformed
  | Ranges (range_type: string) (range_list: "(int \<times> int) list")

text \<open>A JavaScript value handed to \<^verbatim>\<open>archive.checkout\<close>: the version text of the URL
  as it is, or the number a tag resolves to.\<close>

datatype version_arg = VStr string | VNum nat

text \<open>
  The archive handle, with the properties the dispatcher reads: \<open>key\<close> is
  \<^verbatim>\<open>archive.key.toString('hex')\<close>, \<open>metadata_key\<close> is
  \<^verbatim>\<open>archive.metadata.key.toString('hex')\<close>, \<open>extensions\<close> are the names held by
  \<^verbatim>\<open>archive.metadata.extensions\<close>. Everything else the storage engine keeps (files,
  tags, blocks) is the opaque \<open>store\<close>.
\<close>

record 's archive =
  key :: string
  version :: nat
  writable :: bool
  peers :: "peer list"
  metadata_key :: string
  extensions :: "string list"
  store :: 's

text \<open>The body of a response: the \<^verbatim>\<open>data\<close> property, a lazy stream the caller reads.\<close>

datatype body =
    Null
  | Text string
  | ErrorStack exn
  | JsonFiles "string list"
  | JsonTags "(string \<times> nat) list"
  | JsonPeers "peerInfo list"
  | ReadStream string "(int \<times> int) option"
  | ExtensionEvents
  | ChangeEvents string string

text \<open>
  The object a branch of \<^verbatim>\<open>bitFetch\<close> returns. The source writes the properties
  \<^verbatim>\<open>statusCode\<close>, \<^verbatim>\<open>statusText\<close>, \<^verbatim>\<open>headers\<close>, \<^verbatim>\<open>data\<close> and, in one
  branch, \<^verbatim>\<open>header\<close>; a property that is not written is \<open>None\<close>.
\<close>

record response =
  statusCode :: nat
  statusText :: "string option"
  headers :: "hdrs option"
  header :: "hdrs option"
  data :: body

record request =
  url :: string
  rawHeaders :: "string \<rightharpoonup> string"
  reqMethod :: string
  reqBody :: "string list option"

record parsedURL =
  hostname :: string
  pathname :: string
  searchParams :: "string list"

text \<open>The options of \<^verbatim>\<open>makeBitFetch\<close> that are plain values.\<close>

record options =
  opt_base :: "string option"
  opt_timeout :: nat
  opt_writable :: bool

text \<open>
  The collaborators: the packages the module requires and the methods of the archive
  handle. They are not part of the repository, so they are parameters. A call that can
  reject or throw returns \<^typ>\<open>'a result\<close>; a call that changes the archive returns the
  archive as it is afterwards.
  \<^item> \<open>newHeaders\<close> is \<^verbatim>\<open>new Headers(rawHeaders || {})\<close> of the package
    \<^verbatim>\<open>fetch-headers\<close>: the lookup \<^verbatim>\<open>headers.get\<close> of the object it builds, or what it
    throws.
  \<^item> \<open>parseURL\<close> is \<^verbatim>\<open>new URL(url)\<close>; \<open>resolveURL\<close> gives the \<^verbatim>\<open>hostname\<close> of
    the resolved URL; \<open>Bitdrive\<close> is \<^verbatim>\<open>loadArchive\<close>: the injected or SDK-provided
    constructor, \<open>None\<close> when it yields no handle.
  \<^item> \<open>peerOpens\<close> is the race of \<^verbatim>\<open>archive.once('peer-open', ...)\<close> against the
    timer: \<open>None\<close> when the timer fires first.
  \<^item> \<open>metadataUpdate\<close> is \<^verbatim>\<open>archive.metadata.update\<close>: \<open>Inl err\<close> when its callback
    is called with \<^verbatim>\<open>err\<close>.
  \<^item> \<open>writeFile\<close> is the piping of the request body into
    \<^verbatim>\<open>archive.createWriteStream(path)\<close> up to the end of \<^verbatim>\<open>Promise.race\<close>.
\<close>

record 's collab =
  newHeaders :: "(string \<rightharpoonup> string) \<Rightarrow> (string \<rightharpoonup> string) result"
  parseURL :: "string \<Rightarrow> parsedURL result"
  resolveURL :: "string \<Rightarrow> string result"
  Bitdrive :: "string \<Rightarrow> 's archive option result"
  ready :: "'s archive \<Rightarrow> 's archive result"
  peerOpens :: "nat \<Rightarrow> 's archive \<Rightarrow> 's archive option"
  metadataUpdate :: "'s archive \<Rightarrow> 's archive result"
  checkout :: "'s archive \<Rightarrow> version_arg \<Rightarrow> 's archive result"
  getTaggedVersion :: "'s archive \<Rightarrow> string \<Rightarrow> nat result"
  getAllTags :: "'s archive \<Rightarrow> (string \<times> nat) list result"
  deleteTag :: "'s archive \<Rightarrow> string option \<Rightarrow> 's archive result"
  createTag :: "'s archive \<Rightarrow> string \<Rightarrow> nat \<Rightarrow> 's archive result"
  registerExtension :: "'s archive \<Rightarrow> string \<Rightarrow> 's archive result"
  extSend :: "'s archive \<Rightarrow> string \<Rightarrow> string \<Rightarrow> peer \<Rightarrow> 's archive result"
  extBroadcast :: "'s archive \<Rightarrow> string \<Rightarrow> string \<Rightarrow> 's archive result"
  makeDir :: "'s archive \<Rightarrow> string \<Rightarrow> 's archive result"
  writeFile :: "'s archive \<Rightarrow> string \<Rightarrow> string list option \<Rightarrow> 's archive result"
  clear :: "'s archive \<Rightarrow> string \<Rightarrow> 's archive result"
  statPath :: "'s archive \<Rightarrow> string \<Rightarrow> stats_result result"
  rmdir :: "'s archive \<Rightarrow> string \<Rightarrow> 's archive result"
  unlink :: "'s archive \<Rightarrow> string \<Rightarrow> 's archive result"
  getContent :: "'s archive \<Rightarrow> string result"
  download :: "'s archive \<Rightarrow> string \<Rightarrow> 's archive result"
  resolveBitPath :: "'s archive \<Rightarrow> string \<Rightarrow> (string \<times> stat) result"
  readdir :: "'s archive \<Rightarrow> string \<Rightarrow> (string \<times> stat) list result"
  fileStats :: "'s archive \<Rightarrow> string \<Rightarrow> (nat \<times> nat) result"
  mimeGetType :: "string \<Rightarrow> string option"
  parseRange :: "nat \<Rightarrow> string \<Rightarrow> range_result"

text \<open>
  How a stretch of the \<^verbatim>\<open>try\<close> block of \<^verbatim>\<open>bitFetch\<close> ends: it returns a response
  (with the archive handle as the call leaves it, when there is one), or it throws, and
  the \<^verbatim>\<open>catch\<close> then sees \<^verbatim>\<open>responseHeaders\<close> as it was at the throw.
\<close>

datatype 's outcome =
    Return response "'s archive option"
  | Throw exn hdrs

text \<open>\<^verbatim>\<open>await\<close> of a call that may reject, followed by the rest of the block.\<close>

definition await :: "'a result \<Rightarrow> hdrs \<Rightarrow> ('a \<Rightarrow> 's outcome) \<Rightarrow> 's outcome" where
  "await r rh k = (case r of Inl e \<Rightarrow> Throw e rh | Inr x \<Rightarrow> k x)"

definition mkResponse :: "nat \<Rightarrow> hdrs \<Rightarrow> body \<Rightarrow> response" where
  "mkResponse code rh d =
     \<lparr>statusCode = code, statusText = None, headers = Some rh, header = None, data = d\<rparr>"

text \<open>
  The arguments of \<^verbatim>\<open>bitFetch\<close> once \<^verbatim>\<open>headers\<close> is built. From there on the source
  reads \<^verbatim>\<open>headers\<close> and never \<^verbatim>\<open>rawHeaders\<close>: in the request the \<^verbatim>\<open>try\<close> block and
  the helper functions are given, the header lookup is that of the \<^verbatim>\<open>Headers\<close> object,
  and \<open>hget\<close> is \<^verbatim>\<open>headers.get(name)\<close>, with \<open>None\<close> for \<^verbatim>\<open>null\<close>.
\<close>

definition withHeaders :: "request \<Rightarrow> (string \<rightharpoonup> string) \<Rightarrow> request" where
  "withHeaders req h = req\<lparr>rawHeaders := h\<rparr>"

definition hget :: "request \<Rightarrow> string \<Rightarrow> string option" where
  "hget req name = rawHeaders req name"

abbreviation hset :: "string \<Rightarrow> string \<Rightarrow> hdrs \<Rightarrow> hdrs" where
  "hset name v rh \<equiv> AList.update name v rh"

text \<open>The template \<^verbatim>\<open>`"${archive.version}"`\<close> of the \<^verbatim>\<open>ETag\<close> header.\<close>

definition etag :: "'s archive \<Rightarrow> string" where
  \<open>etag archive = ''"'' @ show_nat (version archive) @ ''"''\<close>

section \<open>The helper functions of the module\<close>

definition checkWritable :: "options \<Rightarrow> 's archive \<Rightarrow> unit result" where
  "checkWritable opts archive =
     (if \<not> opt_writable opts then Inl (Error NOT_WRITABLE_ERROR)
      else if \<not> writable archive then Inl (Error NOT_WRITABLE_ERROR)
      else Inr ())"

definition getExtension :: "'s collab \<Rightarrow> 's archive \<Rightarrow> string \<Rightarrow> 's archive result" where
  "getExtension env archive name =
     (if name \<in> set (extensions archive) then Inr archive
      else registerExtension env archive name)"

definition getExtensionPeers :: "'s archive \<Rightarrow> string \<Rightarrow> peer list" where
  "getExtensionPeers archive name =
     filter (\<lambda>peer. case remoteExtensions peer of
                      None \<Rightarrow> False
                    | Some None \<Rightarrow> False
                    | Some (Some names) \<Rightarrow> name \<in> set names)
       (peers archive)"

definition listExtensionNames :: "'s archive \<Rightarrow> string list" where
  "listExtensionNames archive = extensions archive"

text \<open>\<^verbatim>\<open>parseBitURL\<close>: the parsed URL with its \<^verbatim>\<open>key\<close> and \<^verbatim>\<open>version\<close>.\<close>

definition parseBitURL :: "'s collab \<Rightarrow> string \<Rightarrow> (parsedURL \<times> string \<times> string option) result" where
  "parseBitURL env u =
     (case parseURL env u of
        Inl e \<Rightarrow> Inl e
      | Inr parsed \<Rightarrow>
          (let k = hostname parsed in
           if str_includes k ''+'' then
             (case str_split CHR ''+'' k of
                k1 # v # _ \<Rightarrow> Inr (parsed, k1, Some v)
              | [k1] \<Rightarrow> Inr (parsed, k1, None)
              | [] \<Rightarrow> Inr (parsed, k, None))
           else Inr (parsed, k, None)))"

definition getMimeType :: "'s collab \<Rightarrow> string \<Rightarrow> string" where
  "getMimeType env path =
     (let mimeType = (case mimeGetType env path of
                        None \<Rightarrow> ''text/plain; charset=utf-8''
                      | Some t \<Rightarrow> if t \<noteq> [] then t else ''text/plain; charset=utf-8'')
      in if startsWith mimeType ''text/'' then mimeType @ ''; charset=utf-8'' else mimeType)"

definition renderDirectory :: "string \<Rightarrow> string \<Rightarrow> string list \<Rightarrow> string" where
  \<open>renderDirectory u path files =
     ''<!DOCTYPE html>\<newline><title>'' @ u @ ''</title>\<newline>'' @
     ''<meta name="viewport" content="width=device-width, initial-scale=1" />\<newline>'' @
     ''<h1>Index of '' @ path @ ''</h1>\<newline><ul>\<newline>  <li><a href="../">../</a></li>'' @
     concat (map (\<lambda>file. ''\<newline>  <li><a href="'' @ file @ ''">./'' @ file @ ''</a></li>\<newline>'') files) @
     ''\<newline></ul>\<newline>''\<close>

text \<open>\<^verbatim>\<open>renderFiles\<close> writes \<^verbatim>\<open>Content-Type\<close> into \<^verbatim>\<open>responseHeaders\<close> and
  returns the body; \<open>JsonFiles files\<close> is \<^verbatim>\<open>JSON.stringify(files, null, '\t')\<close>.\<close>

definition renderFiles :: "request \<Rightarrow> hdrs \<Rightarrow> string \<Rightarrow> string \<Rightarrow> string list \<Rightarrow> body \<times> hdrs" where
  "renderFiles req rh u path files =
     (if (case hget req ''Accept'' of
            None \<Rightarrow> False
          | Some a \<Rightarrow> a \<noteq> [] \<and> str_includes a ''text/html'')
      then (Text (renderDirectory u path files), hset ''Content-Type'' ''text/html; charset=utf-8'' rh)
      else (JsonFiles files, hset ''Content-Type'' ''application/json; charset=utf-8'' rh))"

text \<open>\<^verbatim>\<open>collect\<close>: iterating an absent body throws a \<^verbatim>\<open>TypeError\<close>.\<close>

definition collect :: "string list option \<Rightarrow> string result" where
  "collect source =
     (case source of
        None \<Rightarrow> Inl (Error ''source is not async iterable'')
      | Some chunks \<Rightarrow> Inr (concat chunks))"

text \<open>\<^verbatim>\<open>formatPeers\<close> and the \<^verbatim>\<open>peers.find\<close> of the POST branch call
  \<^verbatim>\<open>remotePublicKey.toString('hex')\<close>, a \<^verbatim>\<open>TypeError\<close> on a peer without a key.\<close>

fun formatPeers :: "peer list \<Rightarrow> peerInfo list result" where
  "formatPeers [] = Inr []"
| "formatPeers (p # ps) =
     (case remotePublicKey p of
        None \<Rightarrow> Inl (Error ''Cannot read properties of undefined (reading 'toString')'')
      | Some k \<Rightarrow>
          (case formatPeers ps of
             Inl e \<Rightarrow> Inl e
           | Inr rest \<Rightarrow>
               Inr (\<lparr>pi_remotePublicKey = k, pi_remoteType = remoteType p,
                      pi_remoteAddress = remoteAddress p, pi_stats = stats p\<rparr> # rest)))"

fun findPeer :: "peer list \<Rightarrow> string \<Rightarrow> peer option result" where
  "findPeer [] extensionPeer = Inr None"
| "findPeer (p # ps) extensionPeer =
     (case remotePublicKey p of
        None \<Rightarrow> Inl (Error ''Cannot read properties of undefined (reading 'toString')'')
      | Some k \<Rightarrow> if k = extensionPeer then Inr (Some p) else findPeer ps extensionPeer)"

section \<open>The control namespace \<^verbatim>\<open>/$/\<close>\<close>

text \<open>The branch \<^verbatim>\<open>path.startsWith(TAGS_FOLDER)\<close>. The \<^verbatim>\<open>try\<close> around
  \<^verbatim>\<open>getTaggedVersion\<close> answers 404 itself.\<close>

definition tagsFolder ::
  "options \<Rightarrow> 's collab \<Rightarrow> 's archive \<Rightarrow> string \<Rightarrow> string option \<Rightarrow> request \<Rightarrow> hdrs \<Rightarrow> 's outcome" where
  "tagsFolder opts env archive path urlVersion req rh =
     (if reqMethod req = ''GET'' then
        (if path = TAGS_FOLDER then
           (let rh1 = hset ''x-is-directory'' ''true'' rh in
            await (getAllTags env archive) rh1 (\<lambda>tags.
              Return (mkResponse 200 (hset ''Content-Type'' ''application/json; charset=utf-8'' rh1)
                        (JsonTags tags)) (Some archive)))
         else
           (let tagName = drop (length TAGS_FOLDER) path in
            case getTaggedVersion env archive tagName of
              Inr tagVersion \<Rightarrow>
                Return (mkResponse 200 rh (Text (show_nat tagVersion))) (Some archive)
            | Inl _ \<Rightarrow>
                Return (mkResponse 404 rh (Text ''Tag Not Found'')) (Some archive)))
      else if reqMethod req = ''DELETE'' then
        await (checkWritable opts archive) rh (\<lambda>_.
          let tagName = drop (length TAGS_FOLDER) path in
          await (deleteTag env archive (if tagName \<noteq> [] then Some tagName else urlVersion)) rh
            (\<lambda>archive'.
               Return (mkResponse 200 (hset ''ETag'' (etag archive') rh) (Text [])) (Some archive')))
      else if reqMethod req = ''PUT'' then
        await (checkWritable opts archive) rh (\<lambda>_.
          let tagName = drop (length TAGS_FOLDER) path;
              tagVersion = version archive
          in await (createTag env archive tagName tagVersion) rh
            (\<lambda>archive'.
               Return (mkResponse 200
                         (hset ''ETag'' (etag archive')
                            (hset ''Content-Type'' ''text/plain; charset=utf-8'' rh))
                         (Text (show_nat tagVersion))) (Some archive')))
      else if reqMethod req = ''HEAD'' then
        Return (mkResponse 204 rh (Text [])) (Some archive)
      else
        Return (mkResponse 405 rh (Text ''Method Not Allowed'')) (Some archive))"

text \<open>The branch \<^verbatim>\<open>path === EXTENSIONS_FOLDER\<close>.\<close>

definition extensionsRoot :: "'s archive \<Rightarrow> string \<Rightarrow> request \<Rightarrow> hdrs \<Rightarrow> 's outcome" where
  "extensionsRoot archive path req rh =
     (if reqMethod req = ''GET'' then
        (let accept = (case hget req ''Accept'' of None \<Rightarrow> [] | Some a \<Rightarrow> a) in
         if \<not> str_includes accept ''text/event-stream'' then
           (let rh1 = hset ''x-is-directory'' ''true'' rh;
                (d, rh2) = renderFiles req rh1 (url req) path (listExtensionNames archive)
            in Return (mkResponse 204 rh2 d) (Some archive))
         else
           Return (mkResponse 200 (hset ''Content-Type'' ''text/event-stream'' rh) ExtensionEvents)
             (Some archive))
      else
        Return (mkResponse 405 rh (Text ''Method Not Allowed'')) (Some archive))"

text \<open>
  The branch of a specific extension channel, \<^verbatim>\<open>/$/extensions/NAME\<close> or
  \<^verbatim>\<open>/$/extensions/NAME/PEER\<close>. The result is \<open>None\<close> where the source reaches the end of
  the branch without a \<^verbatim>\<open>return\<close>: a GET whose \<^verbatim>\<open>Accept\<close> includes
  \<^verbatim>\<open>text/event-stream\<close>. The non-streaming GET returns an object whose property is spelled
  \<^verbatim>\<open>header\<close>.
\<close>

definition extensionChannel ::
  "'s collab \<Rightarrow> 's archive \<Rightarrow> string \<Rightarrow> request \<Rightarrow> hdrs \<Rightarrow> 's outcome option" where
  "extensionChannel env archive path req rh =
     (let name0 = drop (length EXTENSIONS_FOLDER) path;
          parts = str_split CHR ''/'' name0;
          extensionName = (if str_includes name0 ''/''
                           then (case parts of [] \<Rightarrow> [] | n # _ \<Rightarrow> n) else name0);
          extensionPeer = (if str_includes name0 ''/''
                           then (case parts of
                                   _ # p # _ \<Rightarrow> if p \<noteq> [] then Some p else None
                                 | _ \<Rightarrow> None)
                           else None)
      in if reqMethod req = ''POST'' then
           Some (await (getExtension env archive extensionName) rh (\<lambda>a1.
             case extensionPeer of
               Some ep \<Rightarrow>
                 await (findPeer (getExtensionPeers a1 extensionName) ep) rh (\<lambda>found.
                   case found of
                     None \<Rightarrow> Return (mkResponse 404 rh (Text ''Peer Not Found'')) (Some a1)
                   | Some p \<Rightarrow>
                       await (collect (reqBody req)) rh (\<lambda>content.
                         await (extSend env a1 extensionName content p) rh (\<lambda>a2.
                           Return (mkResponse 200 rh (Text [])) (Some a2))))
             | None \<Rightarrow>
                 await (collect (reqBody req)) rh (\<lambda>content.
                   await (extBroadcast env a1 extensionName content) rh (\<lambda>a2.
                     Return (mkResponse 200 rh (Text [])) (Some a2)))))
         else if reqMethod req = ''GET'' then
           (let accept = (case hget req ''Accept'' of None \<Rightarrow> [] | Some a \<Rightarrow> a) in
            if \<not> str_includes accept ''text/event-stream'' then
              Some (await (getExtension env archive extensionName) rh (\<lambda>a1.
                await (formatPeers (getExtensionPeers a1 extensionName)) rh (\<lambda>finalPeers.
                  Return \<lparr>statusCode = 200, statusText = None, headers = None,
                          header = Some rh, data = JsonPeers finalPeers\<rparr> (Some a1))))
            else None)
         else
           Some (Return (mkResponse 405 rh (Text ''Method Not Allowed'')) (Some archive)))"

text \<open>The block \<^verbatim>\<open>if (path.startsWith(SPECIAL_FOLDER)) { ... }\<close>; \<open>None\<close> when control
  leaves the block without returning.\<close>

definition specialFolder ::
  "options \<Rightarrow> 's collab \<Rightarrow> 's archive \<Rightarrow> string \<Rightarrow> string option \<Rightarrow> request \<Rightarrow> hdrs
     \<Rightarrow> 's outcome option" where
  "specialFolder opts env archive path urlVersion req rh =
     (if path = SPECIAL_FOLDER then
        (let files = [TAGS_FOLDER_NAME, EXTENSIONS_FOLDER_NAME];
             (d, rh1) = renderFiles req rh (url req) path files
         in if reqMethod req = ''HEAD''
            then Some (Return (mkResponse 204 rh1 (Text [])) (Some archive))
            else Some (Return (mkResponse 200 rh1 d) (Some archive)))
      else if startsWith path TAGS_FOLDER then
        Some (tagsFolder opts env archive path urlVersion req rh)
      else if startsWith path EXTENSIONS_FOLDER then
        (if path = EXTENSIONS_FOLDER then Some (extensionsRoot archive path req rh)
         else extensionChannel env archive path req rh)
      else
        Some (Return (mkResponse 404 rh (Text ''Not Found'')) (Some archive)))"

section \<open>File paths: PUT, DELETE, GET and HEAD\<close>

definition putFile ::
  "options \<Rightarrow> 's collab \<Rightarrow> 's archive \<Rightarrow> string \<Rightarrow> request \<Rightarrow> hdrs \<Rightarrow> 's outcome" where
  "putFile opts env archive path req rh =
     await (checkWritable opts archive) rh (\<lambda>_.
       await (if endsWith path ''/'' then makeDir env archive path
              else (let parentDir = join ''/'' (butlast (str_split CHR ''/'' path)) in
                    case (if parentDir \<noteq> [] then makeDir env archive parentDir else Inr archive) of
                      Inl e \<Rightarrow> Inl e
                    | Inr a1 \<Rightarrow> writeFile env a1 path (reqBody req))) rh
         (\<lambda>archive'.
            Return (mkResponse 200 (hset ''ETag'' (etag archive') rh) (Text [])) (Some archive')))"

definition deleteFile ::
  "options \<Rightarrow> 's collab \<Rightarrow> 's archive \<Rightarrow> string \<Rightarrow> request \<Rightarrow> hdrs \<Rightarrow> 's outcome" where
  "deleteFile opts env archive path req rh =
     (if hget req ''x-clear'' = Some ''cache'' then
        await (clear env archive path) rh (\<lambda>archive'.
          Return (mkResponse 200 rh (Text [])) (Some archive'))
      else
        await (checkWritable opts archive) rh (\<lambda>_.
          await (statPath env archive path) rh (\<lambda>sts.
            case (case sts of
                    StatMany l \<Rightarrow> (case l of [] \<Rightarrow> None | s # _ \<Rightarrow> Some s)
                  | StatOne s \<Rightarrow> Some s) of
              None \<Rightarrow> Throw (Error ''Cannot read properties of undefined (reading 'isDirectory')'') rh
            | Some st \<Rightarrow>
                await (if isDirectory st then rmdir env archive path else unlink env archive path) rh
                  (\<lambda>archive'.
                     Return (mkResponse 200 (hset ''ETag'' (etag archive') rh) (Text []))
                       (Some archive')))))"

text \<open>\<^verbatim>\<open>const isRanged = headers.get('Range') || headers.get('range')\<close>.\<close>

definition isRanged :: "request \<Rightarrow> string option" where
  "isRanged req =
     (case hget req ''Range'' of
        None \<Rightarrow> hget req ''range''
      | Some r \<Rightarrow> if r \<noteq> [] then Some r else hget req ''range'')"

text \<open>The \<^verbatim>\<open>else\<close> branch of \<^verbatim>\<open>stat.isDirectory()\<close>: a file. The result is the
  \<^verbatim>\<open>statusCode\<close>, the headers and \<^verbatim>\<open>data\<close>.\<close>

definition serveFile ::
  "'s collab \<Rightarrow> 's archive \<Rightarrow> string \<Rightarrow> stat \<Rightarrow> request \<Rightarrow> hdrs \<Rightarrow> nat \<times> hdrs \<times> body" where
  "serveFile env archive finalPath st req rh =
     (let rh1 = hset ''Accept-Ranges'' ''bytes'' rh;
          rh2 = (case fileStats env archive finalPath of
                   Inr (blocks, downloadedBlocks) \<Rightarrow>
                     hset ''X-Blocks-Downloaded'' (show_nat downloadedBlocks)
                       (hset ''X-Blocks'' (show_nat blocks) rh1)
                 | Inl _ \<Rightarrow> rh1);
          sz = stat_size st;
          rh3 = hset ''Content-Length'' (show_nat sz) rh2;
          full = (200, rh3, if reqMethod req \<noteq> ''HEAD'' then ReadStream finalPath None else Null)
      in case isRanged req of
           None \<Rightarrow> full
         | Some r \<Rightarrow>
             if r = [] then full
             else (case parseRange env sz r of
                     Ranges t ((start, end) # _) \<Rightarrow>
                       if t = ''bytes'' then
                         (let len = end - start + 1 in
                          (206,
                           hset ''Content-Range''
                             (''bytes '' @ show_int start @ ''-'' @ show_int end @ ''/'' @ show_nat sz)
                             (hset ''Content-Length'' (show_int len) rh3),
                           if reqMethod req \<noteq> ''HEAD''
                           then ReadStream finalPath (Some (start, end)) else Null))
                       else full
                   | _ \<Rightarrow> full))"

text \<open>From the \<^verbatim>\<open>try\<close> that resolves the path (\<open>resolveStat\<close>: the final path
  and the stat object, \<open>None\<close> where \<^verbatim>\<open>stats[0]\<close> is \<^verbatim>\<open>undefined\<close>) to the final
  \<^verbatim>\<open>return\<close> of the GET/HEAD branch. The \<^verbatim>\<open>catch\<close> of that \<^verbatim>\<open>try\<close> reads
  \<^verbatim>\<open>e.stack\<close> after it has set \<^verbatim>\<open>Content-Type\<close>, which throws on a nullish
  \<^verbatim>\<open>e\<close>.\<close>

definition resolveStat ::
  "'s collab \<Rightarrow> 's archive \<Rightarrow> string \<Rightarrow> string list \<Rightarrow> (string \<times> stat option) result" where
  "resolveStat env archive path searchPs =
     (if ''noResolve'' \<in> set searchPs then
        (case statPath env archive path of
           Inl e \<Rightarrow> Inl e
         | Inr sts \<Rightarrow>
             Inr (path, (case sts of StatMany (s # _) \<Rightarrow> Some s | _ \<Rightarrow> None)))
      else
        (case resolveBitPath env archive path of
           Inl e \<Rightarrow> Inl e
         | Inr (p, s) \<Rightarrow> Inr (p, Some s)))"

definition resolveAndServe ::
  "'s collab \<Rightarrow> 's archive \<Rightarrow> string \<Rightarrow> string list \<Rightarrow> request \<Rightarrow> hdrs \<Rightarrow> 's outcome" where
  "resolveAndServe env archive path searchPs req rh =
     (case resolveStat env archive path searchPs of
        Inl e \<Rightarrow>
          (let rh1 = hset ''Content-Type'' ''text/plain; charset=utf-8'' rh in
           if e = Nullish
           then Throw (Error ''Cannot read properties of null (reading 'stack')'') rh1
           else Return (mkResponse 404 rh1 (ErrorStack e)) (Some archive))
      | Inr (finalPath, stat) \<Rightarrow>
          (let rh1 = hset ''Content-Type'' (getMimeType env finalPath) rh in
           case stat of
             None \<Rightarrow> Throw (Error ''Cannot read properties of undefined (reading 'mtime')'') rh1
           | Some st \<Rightarrow>
               (let rh2 = hset ''Last-Modified'' (mtime st) rh1 in
                if isDirectory st then
                  (let rh3 = hset ''x-is-directory'' ''true'' rh2 in
                   await (readdir env archive finalPath) rh3 (\<lambda>sts.
                     let files0 = map (\<lambda>(name, s). if isDirectory s then name @ ''/'' else name) sts;
                         files = (if finalPath = ''/'' then ''$/'' # files0 else files0);
                         (d, rh4) = renderFiles req rh3 (url req) path files
                     in if reqMethod req = ''HEAD''
                        then Return (mkResponse 204 rh4 (Text [])) (Some archive)
                        else Return (mkResponse 200 rh4 d) (Some archive)))
                else
                  (let (code, rh3, d) = serveFile env archive finalPath st req rh2
                   in if reqMethod req = ''HEAD''
                      then Return (mkResponse 204 rh3 (Text [])) (Some archive)
                      else Return (mkResponse code rh3 d) (Some archive)))))"

text \<open>
  The branch \<^verbatim>\<open>(method === 'GET') || (method === 'HEAD')\<close>, as the source has it: the
  change-event stream, the prefetch, the two \<^verbatim>\<open>.well-known\<close> tests one after the other,
  then path resolution. \<open>ChangeEvents path contentFeed\<close> is \<^verbatim>\<open>startReader()\<close>.
\<close>

definition getOrHead ::
  "'s collab \<Rightarrow> 's archive \<Rightarrow> string \<Rightarrow> string list \<Rightarrow> request \<Rightarrow> hdrs \<Rightarrow> 's outcome" where
  "getOrHead env archive path searchPs req rh =
     (if reqMethod req = ''GET'' \<and> hget req ''Accept'' = Some ''text/event-stream'' then
        await (getContent env archive) rh (\<lambda>contentFeed.
          Return (mkResponse 200 (hset ''Content-Type'' ''text/event-stream'' rh)
                    (ChangeEvents path contentFeed)) (Some archive))
      else
        await (if hget req ''x-download'' = Some ''cache'' then download env archive path
               else Inr archive) rh
          (\<lambda>archive'.
             let finalPath = path in
             if finalPath = ''/.well-known/bit'' then
               (let entry = ''bit://'' @ key archive' @ ''\<newline>ttl=3600''
                in Return (mkResponse 200 rh (Text entry)) (Some archive'))
             else if finalPath = ''/.well-known/bit'' then
               (let entry = ''bit://'' @ key archive' @ ''\<newline>ttl=3600''
                in Return (mkResponse 200 rh (Text entry)) (Some archive'))
             else resolveAndServe env archive' path searchPs req rh))"

text \<open>The method dispatch on a path outside the control namespace (or after falling out
  of it).\<close>

definition fileMethods ::
  "options \<Rightarrow> 's collab \<Rightarrow> 's archive \<Rightarrow> string \<Rightarrow> string list \<Rightarrow> request \<Rightarrow> hdrs \<Rightarrow> 's outcome" where
  "fileMethods opts env archive path searchPs req rh =
     (if reqMethod req = ''PUT'' then putFile opts env archive path req rh
      else if reqMethod req = ''DELETE'' then deleteFile opts env archive path req rh
      else if reqMethod req = ''GET'' \<or> reqMethod req = ''HEAD'' then
        getOrHead env archive path searchPs req rh
      else Return (mkResponse 405 rh (Text ''Method Not Allowed'')) (Some archive))"

section \<open>The dispatcher\<close>

text \<open>The header baseline written once the archive is ready (\<^verbatim>\<open>Link\<close>, \<^verbatim>\<open>Allow\<close>,
  \<^verbatim>\<open>ETag\<close>).\<close>

definition readyHeaders :: "options \<Rightarrow> 's archive \<Rightarrow> string \<Rightarrow> hdrs \<Rightarrow> hdrs" where
  \<open>readyHeaders opts archive path rh =
     (let canonical = ''bit://'' @ key archive @ path;
          rh1 = hset ''Link'' (''<'' @ canonical @ ''>; rel="canonical"'') rh;
          isWritable = (opt_writable opts \<and> writable archive);
          allowHeaders = (if isWritable then ALL_ALLOW else READABLE_ALLOW);
          rh2 = hset ''Allow'' (join '', '' allowHeaders) rh1
      in hset ''ETag'' (etag archive) rh2)\<close>

text \<open>The rest of the \<^verbatim>\<open>try\<close> block once the archive is loaded, synchronised and
  checked out.\<close>

definition afterReady ::
  "options \<Rightarrow> 's collab \<Rightarrow> 's archive \<Rightarrow> string \<Rightarrow> string option \<Rightarrow> string list \<Rightarrow> request
     \<Rightarrow> hdrs \<Rightarrow> 's outcome" where
  "afterReady opts env archive path urlVersion searchPs req rh0 =
     (let rh = readyHeaders opts archive path rh0 in
      case (if startsWith path SPECIAL_FOLDER
            then specialFolder opts env archive path urlVersion req rh else None) of
        Some out \<Rightarrow> out
      | None \<Rightarrow> fileMethods opts env archive path searchPs req rh)"

definition normalizePath :: "string \<Rightarrow> string" where
  "normalizePath p =
     (let p1 = (if p = [] then ''/'' else p)
      in if \<not> startsWith p1 ''/'' then ''/'' @ p1 else p1)"

text \<open>\<^verbatim>\<open>if (!archive.version) { ... }\<close>: wait for a peer unless one is connected, then
  update the metadata feed; the callback rejects \<^verbatim>\<open>if (err)\<close>, that is for a truthy
  \<^verbatim>\<open>err\<close>, and resolves otherwise.\<close>

definition syncArchive :: "options \<Rightarrow> 's collab \<Rightarrow> 's archive \<Rightarrow> 's archive result" where
  "syncArchive opts env archive =
     (if version archive = 0 then
        (case (if peers archive = [] then
                 (case peerOpens env (opt_timeout opts) archive of
                    None \<Rightarrow> Inl (Error ''Timed out looking for peers'')
                  | Some a \<Rightarrow> Inr a)
               else Inr archive) of
           Inl e \<Rightarrow> Inl e
         | Inr a1 \<Rightarrow>
             (case metadataUpdate env a1 of
                Inl err \<Rightarrow> if err = Falsy \<or> err = Nullish then Inr a1 else Inl err
              | Inr a2 \<Rightarrow> Inr a2))
      else Inr archive)"

text \<open>\<^verbatim>\<open>if (version) { ... }\<close>: check out a numeric version or a tagged one.\<close>

definition checkoutVersion :: "'s collab \<Rightarrow> 's archive \<Rightarrow> string option \<Rightarrow> 's archive result" where
  "checkoutVersion env archive urlVersion =
     (case urlVersion of
        None \<Rightarrow> Inr archive
      | Some v \<Rightarrow>
          if v = [] then Inr archive
          else (case (if NUMBER_REGEX_test v then checkout env archive (VStr v)
                      else (case getTaggedVersion env archive v of
                              Inl e \<Rightarrow> Inl e
                            | Inr n \<Rightarrow> checkout env archive (VNum n))) of
                  Inl e \<Rightarrow> Inl e
                | Inr a1 \<Rightarrow> ready env a1))"

text \<open>The inner \<^verbatim>\<open>try\<close> around \<^verbatim>\<open>resolveURL\<close>: a failed resolution is
  rethrown only for a key that contains a dot.\<close>

definition resolveKey :: "'s collab \<Rightarrow> string \<Rightarrow> string result" where
  "resolveKey env key0 =
     (case resolveURL env (''bit://'' @ key0) of
        Inr h \<Rightarrow> Inr h
      | Inl e \<Rightarrow> if str_includes key0 ''.'' then Inl e else Inr key0)"

text \<open>
  The first part of the \<^verbatim>\<open>try\<close> block of \<^verbatim>\<open>bitFetch\<close>, up to the second
  \<^verbatim>\<open>archive.ready()\<close>: \<open>Inl\<close> when the block ends there (a throw, or the 404 of an
  unknown drive), \<open>Inr\<close> with the archive, \<^verbatim>\<open>path\<close>, \<^verbatim>\<open>version\<close> and
  \<^verbatim>\<open>searchParams\<close> when the archive is resolved and ready.
\<close>

definition prepare ::
  "options \<Rightarrow> 's collab \<Rightarrow> request \<Rightarrow> hdrs
     \<Rightarrow> 's outcome + ('s archive \<times> string \<times> string option \<times> string list)" where
  "prepare opts env req rh0 =
     (case parseBitURL env (url req) of
        Inl e \<Rightarrow> Inl (Throw e rh0)
      | Inr (parsed, key0, urlVersion) \<Rightarrow>
          (let path = normalizePath (pathname parsed) in
           case resolveKey env key0 of
             Inl e \<Rightarrow> Inl (Throw e rh0)
           | Inr k \<Rightarrow>
               (case Bitdrive env k of
                  Inl e \<Rightarrow> Inl (Throw e rh0)
                | Inr None \<Rightarrow> Inl (Return (mkResponse 404 rh0 (Text ''Unknown drive'')) None)
                | Inr (Some a0) \<Rightarrow>
                    (case ready env a0 of
                       Inl e \<Rightarrow> Inl (Throw e rh0)
                     | Inr a1 \<Rightarrow>
                         (case syncArchive opts env a1 of
                            Inl e \<Rightarrow> Inl (Throw e rh0)
                          | Inr a2 \<Rightarrow>
                              (case checkoutVersion env a2 urlVersion of
                                 Inl e \<Rightarrow> Inl (Throw e rh0)
                               | Inr a3 \<Rightarrow>
                                   Inr (a3, path, urlVersion, searchParams parsed)))))))"

text \<open>The \<^verbatim>\<open>try\<close> block of \<^verbatim>\<open>bitFetch\<close>.\<close>

definition tryBlock :: "options \<Rightarrow> 's collab \<Rightarrow> request \<Rightarrow> hdrs \<Rightarrow> 's outcome" where
  "tryBlock opts env req rh0 =
     (case prepare opts env req rh0 of
        Inl out \<Rightarrow> out
      | Inr (archive, path, urlVersion, searchPs) \<Rightarrow>
          afterReady opts env archive path urlVersion searchPs req rh0)"

definition baseHeaders :: hdrs where
  "baseHeaders =
     [(''Access-Control-Allow-Origin'', ''*''),
      (''Allow-CSP-From'', ''*''),
      (''Access-Control-Allow-Headers'', ''*'')]"

text \<open>
  The \<^verbatim>\<open>catch (e)\<close> of \<^verbatim>\<open>bitFetch\<close>. Its first statement reads \<^verbatim>\<open>e.message\<close>:
  on a nullish \<^verbatim>\<open>e\<close> that throws a \<^verbatim>\<open>TypeError\<close>, which nothing catches (\<open>Inl\<close>).
\<close>

definition catchBlock :: "exn \<Rightarrow> hdrs \<Rightarrow> response result" where
  "catchBlock e rh =
     (if e = Nullish then Inl (Error ''Cannot read properties of null (reading 'message')'')
      else
        (let isUnauthorized = (thrownMessage e = Some NOT_WRITABLE_ERROR)
         in Inr \<lparr>statusCode = (if isUnauthorized then 403 else 500),
                 statusText = Some (if isUnauthorized then ''Not Authorized'' else ''Server Error''),
                 headers = Some rh, header = None, data = ErrorStack e\<rparr>))"

definition isSourceBit :: "options \<Rightarrow> bool" where
  "isSourceBit opts =
     (case opt_base opts of None \<Rightarrow> False | Some b \<Rightarrow> b \<noteq> [] \<and> startsWith b ''bit://'')"

definition shouldIntercept :: "options \<Rightarrow> string \<Rightarrow> bool" where
  "shouldIntercept opts u =
     (startsWith u ''bit://'' \<or> (\<not> PROTOCOL_REGEX_match u \<and> isSourceBit opts))"

text \<open>
  \<^verbatim>\<open>bitFetch\<close>. \<open>Inl\<close> is an exception that leaves the call; \<open>Inr\<close> is the returned
  response, together with the archive handle as the call leaves it (when the call
  completed on a handle). Three things can leave the call: the error of the scheme test,
  what \<^verbatim>\<open>new Headers(rawHeaders || {})\<close> throws (it stands after the scheme test and
  before the \<^verbatim>\<open>try\<close>), and what the \<^verbatim>\<open>catch\<close> itself throws. \<open>respond\<close> is the
  \<^verbatim>\<open>try\<close>/\<^verbatim>\<open>catch\<close> statement: the response the block returned, or what the
  \<^verbatim>\<open>catch\<close> does with the thrown value.
\<close>

definition respond :: "'s outcome \<Rightarrow> exn + (response \<times> 's archive option)" where
  "respond out =
     (case out of
        Return r a \<Rightarrow> Inr (r, a)
      | Throw e rh \<Rightarrow> (case catchBlock e rh of Inl e' \<Rightarrow> Inl e' | Inr r \<Rightarrow> Inr (r, None)))"

definition bitFetch ::
  "options \<Rightarrow> 's collab \<Rightarrow> request \<Rightarrow> exn + (response \<times> 's archive option)" where
  "bitFetch opts env req =
     (if \<not> shouldIntercept opts (url req) then Inl (Error ''Invalid protocol, must be bit://'')
      else (case newHeaders env (rawHeaders req) of
              Inl e \<Rightarrow> Inl e
            | Inr h \<Rightarrow> respond (tryBlock opts env (withHeaders req h) baseHeaders)))"

section \<open>The event streams\<close>

text \<open>
  An event emitter is the list of its registrations, oldest first. \<^verbatim>\<open>on\<close> appends one;
  \<^verbatim>\<open>removeListener\<close> removes the most recently added registration of that listener for
  that event, and nothing when there is none. A listener is a closure of one stream: the
  number of the stream and the function. The surface is what a stream registers on: the
  archive, its metadata feed, the content feed (\<^verbatim>\<open>await archive.getContent()\<close>) and the
  watchers of \<^verbatim>\<open>archive.watch\<close>.
\<close>

datatype handler =
    OnMessage | OnPeerOpen | OnPeerRemove
  | OnDownloadMetadata | OnUploadMetadata | OnDownloadContent | OnUploadContent

type_synonym listener = "nat \<times> handler"
type_synonym emitter = "(string \<times> listener) list"

definition on :: "emitter \<Rightarrow> string \<Rightarrow> listener \<Rightarrow> emitter" where
  "on em ev l = em @ [(ev, l)]"

definition removeListener :: "emitter \<Rightarrow> string \<Rightarrow> listener \<Rightarrow> emitter" where
  "removeListener em ev l = rev (remove1 (ev, l) (rev em))"

record surface =
  archive_listeners :: emitter
  metadata_listeners :: emitter
  content_listeners :: emitter
  watchers :: "(nat \<times> string) list"

text \<open>The extension stream: the function given to \<^verbatim>\<open>EventIterator\<close> and the function it
  returns.\<close>

definition extensionStream_start :: "nat \<Rightarrow> surface \<Rightarrow> surface" where
  "extensionStream_start sid s =
     (let s1 = s\<lparr>archive_listeners := on (archive_listeners s) EXTENSION_EVENT (sid, OnMessage)\<rparr>;
          s2 = s1\<lparr>archive_listeners := on (archive_listeners s1) PEER_OPEN (sid, OnPeerOpen)\<rparr>
      in s2\<lparr>archive_listeners := on (archive_listeners s2) PEER_REMOVE (sid, OnPeerRemove)\<rparr>)"

definition extensionStream_teardown :: "nat \<Rightarrow> surface \<Rightarrow> surface" where
  "extensionStream_teardown sid s =
     (let s1 = s\<lparr>archive_listeners :=
                   removeListener (archive_listeners s) EXTENSION_EVENT (sid, OnMessage)\<rparr>;
          s2 = s1\<lparr>archive_listeners :=
                    removeListener (archive_listeners s1) PEER_OPEN (sid, OnPeerOpen)\<rparr>
      in s2\<lparr>archive_listeners :=
              removeListener (archive_listeners s2) PEER_REMOVE (sid, OnPeerRemove)\<rparr>)"

text \<open>The change stream of a file path, with the registrations in the order of the
  source and the listeners the source names.\<close>

definition changeStream_start :: "nat \<Rightarrow> string \<Rightarrow> surface \<Rightarrow> surface" where
  "changeStream_start sid path s =
     (let s0 = s\<lparr>watchers := watchers s @ [(sid, path)]\<rparr>;
          s1 = s0\<lparr>metadata_listeners := on (metadata_listeners s0) ''download'' (sid, OnDownloadMetadata)\<rparr>;
          s2 = s1\<lparr>metadata_listeners := on (metadata_listeners s1) ''upload'' (sid, OnUploadMetadata)\<rparr>;
          s3 = s2\<lparr>content_listeners := on (content_listeners s2) ''download'' (sid, OnDownloadContent)\<rparr>
      in s3\<lparr>content_listeners := on (content_listeners s3) ''upload'' (sid, OnUploadMetadata)\<rparr>)"

definition changeStream_teardown :: "nat \<Rightarrow> surface \<Rightarrow> surface" where
  "changeStream_teardown sid s =
     (let s0 = s\<lparr>watchers := filter (\<lambda>(i, _). i \<noteq> sid) (watchers s)\<rparr>;
          s1 = s0\<lparr>metadata_listeners :=
                    removeListener (metadata_listeners s0) ''download'' (sid, OnDownloadMetadata)\<rparr>;
          s2 = s1\<lparr>metadata_listeners :=
                    removeListener (metadata_listeners s1) ''upload'' (sid, OnUploadMetadata)\<rparr>;
          s3 = s2\<lparr>content_listeners :=
                    removeListener (content_listeners s2) ''download'' (sid, OnDownloadContent)\<rparr>
      in s3\<lparr>content_listeners :=
              removeListener (content_listeners s3) ''upload'' (sid, OnUploadContent)\<rparr>)"

text \<open>The registrations of one stream that are still on the surface.\<close>

definition registered :: "nat \<Rightarrow> surface \<Rightarrow> (string \<times> listener) list" where
  "registered sid s =
     filter (\<lambda>(ev, (i, h)). i = sid)
       (archive_listeners s @ metadata_listeners s @ content_listeners s)"

text \<open>
  What the listeners of the change stream push: \<^verbatim>\<open>{ event, data }\<close>, where
  \<^verbatim>\<open>data\<close> is the version (the watcher) or \<^verbatim>\<open>{ index, source }\<close> (the four block
  listeners). \<open>metadataKey\<close> is \<^verbatim>\<open>archive.metadata.key.toString('hex')\<close> and
  \<open>contentKey\<close> is \<^verbatim>\<open>contentFeed.key.toString('hex')\<close>.
\<close>

datatype event_data = Version nat | Block (index: nat) (source: string)

datatype pushed = Pushed (event: string) (payload: event_data)

definition watcherCallback :: "'s archive \<Rightarrow> pushed" where
  "watcherCallback archive = Pushed ''change'' (Version (version archive))"

fun blockListener :: "string \<Rightarrow> string \<Rightarrow> handler \<Rightarrow> nat \<Rightarrow> pushed option" where
  "blockListener metadataKey contentKey OnDownloadMetadata i =
     Some (Pushed ''download'' (Block i metadataKey))"
| "blockListener metadataKey contentKey OnUploadMetadata i =
     Some (Pushed ''download'' (Block i metadataKey))"
| "blockListener metadataKey contentKey OnDownloadContent i =
     Some (Pushed ''download'' (Block i contentKey))"
| "blockListener metadataKey contentKey OnUploadContent i =
     Some (Pushed ''download'' (Block i contentKey))"
| "blockListener metadataKey contentKey _ i = None"

text \<open>\<^verbatim>\<open>feed.emit(ev, index)\<close>: every listener registered for \<open>ev\<close> runs, in the order of
  registration; the result is what stream \<open>sid\<close> is pushed.\<close>

definition emitBlock :: "string \<Rightarrow> string \<Rightarrow> emitter \<Rightarrow> string \<Rightarrow> nat \<Rightarrow> nat \<Rightarrow> pushed list" where
  "emitBlock metadataKey contentKey em ev i sid =
     List.map_filter (\<lambda>(ev', (sid', h)).
        if ev' = ev \<and> sid' = sid then blockListener metadataKey contentKey h i else None) em"

text \<open>
  \<^verbatim>\<open>JSON.stringify(data)\<close> for the two shapes of \<^verbatim>\<open>data\<close>, written out for a
  \<open>source\<close> of hexadecimal digits (nothing to escape), and one iteration of
  \<^verbatim>\<open>startReader\<close>: \<^verbatim>\<open>`event:${event}\ndata:${JSON.stringify(data)}\n\n`\<close>.
\<close>

definition JSON_stringify :: "event_data \<Rightarrow> string" where
  \<open>JSON_stringify d =
     (case d of
        Version v \<Rightarrow> show_nat v
      | Block i src \<Rightarrow> ''{"index":'' @ show_nat i @ '',"source":"'' @ src @ ''"}'')\<close>

definition startReader_frame :: "pushed \<Rightarrow> string" where
  "startReader_frame p =
     ''event:'' @ event p @ ''\<newline>data:'' @ JSON_stringify (payload p) @ ''\<newline>\<newline>''"

section \<open>The second \<^verbatim>\<open>.well-known\<close> branch removed\<close>

text \<open>
  The GET/HEAD branch with one \<^verbatim>\<open>.well-known\<close> test instead of two, as the
  specification's design note asks for, and the dispatcher built on it. These are compared
  with \<open>getOrHead\<close> and \<open>bitFetch\<close> below.
\<close>

definition getOrHead_single ::
  "'s collab \<Rightarrow> 's archive \<Rightarrow> string \<Rightarrow> string list \<Rightarrow> request \<Rightarrow> hdrs \<Rightarrow> 's outcome" where
  "getOrHead_single env archive path searchPs req rh =
     (if reqMethod req = ''GET'' \<and> hget req ''Accept'' = Some ''text/event-stream'' then
        await (getContent env archive) rh (\<lambda>contentFeed.
          Return (mkResponse 200 (hset ''Content-Type'' ''text/event-stream'' rh)
                    (ChangeEvents path contentFeed)) (Some archive))
      else
        await (if hget req ''x-download'' = Some ''cache'' then download env archive path
               else Inr archive) rh
          (\<lambda>archive'.
             let finalPath = path in
             if finalPath = ''/.well-known/bit'' then
               (let entry = ''bit://'' @ key archive' @ ''\<newline>ttl=3600''
                in Return (mkResponse 200 rh (Text entry)) (Some archive'))
             else resolveAndServe env archive' path searchPs req rh))"

definition fileMethods_single ::
  "options \<Rightarrow> 's collab \<Rightarrow> 's archive \<Rightarrow> string \<Rightarrow> string list \<Rightarrow> request \<Rightarrow> hdrs \<Rightarrow> 's outcome" where
  "fileMethods_single opts env archive path searchPs req rh =
     (if reqMethod req = ''PUT'' then putFile opts env archive path req rh
      else if reqMethod req = ''DELETE'' then deleteFile opts env archive path req rh
      else if reqMethod req = ''GET'' \<or> reqMethod req = ''HEAD'' then
        getOrHead_single env archive path searchPs req rh
      else Return (mkResponse 405 rh (Text ''Method Not Allowed'')) (Some archive))"

definition afterReady_single ::
  "options \<Rightarrow> 's collab \<Rightarrow> 's archive \<Rightarrow> string \<Rightarrow> string option \<Rightarrow> string list \<Rightarrow> request
     \<Rightarrow> hdrs \<Rightarrow> 's outcome" where
  "afterReady_single opts env archive path urlVersion searchPs req rh0 =
     (let rh = readyHeaders opts archive path rh0 in
      case (if startsWith path SPECIAL_FOLDER
            then specialFolder opts env archive path urlVersion req rh else None) of
        Some out \<Rightarrow> out
      | None \<Rightarrow> fileMethods_single opts env archive path searchPs req rh)"

definition tryBlock_single :: "options \<Rightarrow> 's collab \<Rightarrow> request \<Rightarrow> hdrs \<Rightarrow> 's outcome" where
  "tryBlock_single opts env req rh0 =
     (case prepare opts env req rh0 of
        Inl out \<Rightarrow> out
      | Inr (archive, path, urlVersion, searchPs) \<Rightarrow>
          afterReady_single opts env archive path urlVersion searchPs req rh0)"

definition bitFetch_single ::
  "options \<Rightarrow> 's collab \<Rightarrow> request \<Rightarrow> exn + (response \<times> 's archive option)" where
  "bitFetch_single opts env req =
     (if \<not> shouldIntercept opts (url req) then Inl (Error ''Invalid protocol, must be bit://'')
      else (case newHeaders env (rawHeaders req) of
              Inl e \<Rightarrow> Inl e
            | Inr h \<Rightarrow> respond (tryBlock_single opts env (withHeaders req h) baseHeaders)))"

section \<open>Notions the claims use\<close>

text \<open>A header of a response: a property of the object under \<^verbatim>\<open>headers\<close>.\<close>

definition responseHeader :: "response \<Rightarrow> string \<Rightarrow> string option" where
  "responseHeader r name = (case headers r of None \<Rightarrow> None | Some h \<Rightarrow> map_of h name)"

text \<open>
  The four write operations, as the router tells them apart: a PUT or a plain DELETE
  (one without \<^verbatim>\<open>x-clear: cache\<close>) on a path outside the control namespace, a PUT or a
  DELETE under \<^verbatim>\<open>/$/tags/\<close>.
\<close>

definition writeOperation :: "request \<Rightarrow> string \<Rightarrow> bool" where
  "writeOperation req path =
     ((reqMethod req = ''PUT'' \<and> \<not> startsWith path SPECIAL_FOLDER)
      \<or> (reqMethod req = ''DELETE'' \<and> \<not> startsWith path SPECIAL_FOLDER
           \<and> hget req ''x-clear'' \<noteq> Some ''cache'')
      \<or> (reqMethod req = ''PUT'' \<and> startsWith path TAGS_FOLDER)
      \<or> (reqMethod req = ''DELETE'' \<and> startsWith path TAGS_FOLDER))"

text \<open>
  The non-streaming GET of a specific extension channel: the branch of
  \<^verbatim>\<open>/$/extensions/NAME\<close> taken when \<^verbatim>\<open>Accept\<close> does not include
  \<^verbatim>\<open>text/event-stream\<close>.
\<close>

definition extensionChannelGet :: "request \<Rightarrow> string \<Rightarrow> bool" where
  "extensionChannelGet req path \<longleftrightarrow>
     startsWith path EXTENSIONS_FOLDER \<and> path \<noteq> EXTENSIONS_FOLDER \<and> reqMethod req = ''GET''
     \<and> \<not> str_includes (case hget req ''Accept'' of None \<Rightarrow> [] | Some a \<Rightarrow> a) ''text/event-stream''"

text \<open>
  Invariants of the handlers. \<open>keepsBaseline rh h\<close>: the headers \<open>h\<close> have the
  \<^verbatim>\<open>Access-Control-Allow-Origin\<close>, \<^verbatim>\<open>Link\<close> and \<^verbatim>\<open>Allow\<close> of \<open>rh\<close>, and
  the \<^verbatim>\<open>ETag\<close> of \<open>rh\<close> or a quoted version written later. \<open>outcomeKeeps\<close> and
  \<open>keepsETag\<close> say so of the headers an outcome carries.
\<close>

definition keepsBaseline :: "hdrs \<Rightarrow> hdrs \<Rightarrow> bool" where
  \<open>keepsBaseline rh h \<longleftrightarrow>
     map_of h ''Access-Control-Allow-Origin'' = map_of rh ''Access-Control-Allow-Origin''
     \<and> map_of h ''Link'' = map_of rh ''Link''
     \<and> map_of h ''Allow'' = map_of rh ''Allow''
     \<and> (map_of h ''ETag'' = map_of rh ''ETag''
        \<or> (\<exists>v. map_of h ''ETag'' = Some (''"'' @ show_nat v @ ''"'')))\<close>

definition outcomeKeeps :: "hdrs \<Rightarrow> 's outcome \<Rightarrow> bool" where
  "outcomeKeeps rh out \<longleftrightarrow>
     (case out of
        Return r a \<Rightarrow> (\<exists>h. headers r = Some h \<and> keepsBaseline rh h)
      | Throw e h \<Rightarrow> keepsBaseline rh h)"

definition keepsETag :: "hdrs \<Rightarrow> 's outcome \<Rightarrow> bool" where
  "keepsETag rh out \<longleftrightarrow>
     (case out of
        Return r a \<Rightarrow> (\<exists>h. headers r = Some h \<and> map_of h ''ETag'' = map_of rh ''ETag'')
      | Throw e h \<Rightarrow> True)"

section \<open>An example collaborator\<close>

text \<open>
  A collaborator to run the dispatcher on concrete requests: one drive, given in its
  current state, whose store is its list of tags; it holds the file \<^verbatim>\<open>/hello.txt\<close> of
  100 bytes. Writes raise the version by one. Domain resolution fails, so a key is used
  as it is. The \<^verbatim>\<open>Headers\<close> object looks a name up as the raw headers have it.
\<close>

type_synonym tags = "(string \<times> nat) list"

definition exampleParseURL :: "string \<Rightarrow> parsedURL result" where
  "exampleParseURL u =
     (if startsWith u ''bit://'' then
        (let rest = drop 6 u in
         Inr \<lparr>hostname = takeWhile (\<lambda>c. c \<noteq> CHR ''/'') rest,
              pathname = dropWhile (\<lambda>c. c \<noteq> CHR ''/'') rest,
              searchParams = []\<rparr>)
      else Inl (Error ''Invalid URL''))"

definition exampleParseRange :: "nat \<Rightarrow> string \<Rightarrow> range_result" where
  "exampleParseRange sz h =
     (if h = ''bytes=0-49'' \<and> 49 < sz then Ranges ''bytes'' [(0, 49)]
      else if h = ''items=0-49'' \<and> 49 < sz then Ranges ''items'' [(0, 49)]
      else RangeMalformed)"

definition helloStat :: stat where
  "helloStat = \<lparr>isDirectory = False, stat_size = 100, mtime = ''Thu, 01 Jan 1970 00:00:00 GMT''\<rparr>"

definition exampleEnv :: "tags archive \<Rightarrow> tags collab" where
  "exampleEnv drive =
     \<lparr>newHeaders = Inr,
      parseURL = exampleParseURL,
      resolveURL = (\<lambda>u. Inl (Error ''DNS lookup failed'')),
      Bitdrive = (\<lambda>k. Inr (if k = key drive then Some drive else None)),
      ready = Inr,
      peerOpens = (\<lambda>t a. None),
      metadataUpdate = Inr,
      checkout = (\<lambda>a v. Inl (Error ''No such version'')),
      getTaggedVersion = (\<lambda>a n. case map_of (store a) n of
                                    None \<Rightarrow> Inl (Error ''Tag not found'')
                                  | Some v \<Rightarrow> Inr v),
      getAllTags = (\<lambda>a. Inr (store a)),
      deleteTag = (\<lambda>a n. case n of
                             None \<Rightarrow> Inl (Error ''Tag not found'')
                           | Some t \<Rightarrow>
                               (case map_of (store a) t of
                                  None \<Rightarrow> Inl (Error ''Tag not found'')
                                | Some _ \<Rightarrow> Inr (a\<lparr>version := version a + 1,
                                                   store := AList.delete t (store a)\<rparr>))),
      createTag = (\<lambda>a n v. Inr (a\<lparr>version := version a + 1,
                                  store := AList.update n v (store a)\<rparr>)),
      registerExtension = (\<lambda>a n. Inr (a\<lparr>extensions := extensions a @ [n]\<rparr>)),
      extSend = (\<lambda>a n c p. Inr a),
      extBroadcast = (\<lambda>a n c. Inr a),
      makeDir = (\<lambda>a p. Inr a),
      writeFile = (\<lambda>a p b. Inr (a\<lparr>version := version a + 1\<rparr>)),
      clear = (\<lambda>a p. Inr a),
      statPath = (\<lambda>a p. if p = ''/hello.txt'' then Inr (StatOne helloStat)
                         else Inl (Error ''Not found'')),
      rmdir = (\<lambda>a p. Inl (Error ''Not a directory'')),
      unlink = (\<lambda>a p. Inr (a\<lparr>version := version a + 1\<rparr>)),
      getContent = (\<lambda>a. Inr ''c0ffee''),
      download = (\<lambda>a p. Inr a),
      resolveBitPath = (\<lambda>a p. if p = ''/hello.txt'' then Inr (p, helloStat)
                               else Inl (Error ''Not Found'')),
      readdir = (\<lambda>a p. Inr []),
      fileStats = (\<lambda>a p. Inl (Error ''No stats'')),
      mimeGetType = (\<lambda>p. if endsWith p ''.txt'' then Some ''text/plain'' else None),
      parseRange = exampleParseRange\<rparr>"

definition exampleDrive :: "tags archive" where
  "exampleDrive =
     \<lparr>key = ''abcd'', version = 5, writable = True, peers = [], metadata_key = ''abcd'',
      extensions = [], store = []\<rparr>"

definition taggedDrive :: "tags archive" where
  "taggedDrive = exampleDrive\<lparr>store := [(''v1'', 3)]\<rparr>"

text \<open>The example collaborator with an injected \<^verbatim>\<open>Bitdrive\<close> that throws
  \<^verbatim>\<open>null\<close>.\<close>

definition nullThrowingEnv :: "tags collab" where
  "nullThrowingEnv = (exampleEnv exampleDrive)\<lparr>Bitdrive := (\<lambda>k. Inl Nullish)\<rparr>"

definition exampleOptions :: options where
  "exampleOptions = \<lparr>opt_base = None, opt_timeout = DEFAULT_TIMEOUT, opt_writable = True\<rparr>"

definition exampleRequest :: "string \<Rightarrow> string \<Rightarrow> (string \<times> string) list \<Rightarrow> request" where
  "exampleRequest m u hs = \<lparr>url = u, rawHeaders = map_of hs, reqMethod = m, reqBody = None\<rparr>"

definition emptySurface :: surface where
  "emptySurface =
     \<lparr>archive_listeners = [], metadata_listeners = [], content_listeners = [], watchers = []\<rparr>"

section \<open>Basic facts\<close>

lemma await_Inl [simp]: "await (Inl e) rh k = Throw e rh"
  by (simp add: await_def)

lemma await_Inr [simp]: "await (Inr x) rh k = k x"
  by (simp add: await_def)

lemma map_of_hset: "map_of (hset name v rh) = (map_of rh)(name \<mapsto> v)"
  by (rule update_conv')

lemma withHeaders_same [simp]: "withHeaders req (rawHeaders req) = req"
  by (simp add: withHeaders_def)

lemma withHeaders_fields [simp]:
  "url (withHeaders req h) = url req"
  "reqMethod (withHeaders req h) = reqMethod req"
  "reqBody (withHeaders req h) = reqBody req"
  "hget (withHeaders req h) name = h name"
  by (simp_all add: withHeaders_def hget_def)

lemma bitFetch_ready:
  assumes "shouldIntercept opts (url req)"
    and "newHeaders env (rawHeaders req) = Inr h"
    and "prepare opts env (withHeaders req h) baseHeaders
           = Inr (archive, path, urlVersion, searchPs)"
  shows "bitFetch opts env req =
           respond (afterReady opts env archive path urlVersion searchPs (withHeaders req h)
                      baseHeaders)"
  using assms by (simp add: bitFetch_def tryBlock_def)

lemma startsWith_iff: "startsWith s p \<longleftrightarrow> (\<exists>r. s = p @ r)"
proof
  assume "startsWith s p"
  then have "s = p @ drop (length p) s"
    unfolding startsWith_def by (metis append_take_drop_id)
  then show "\<exists>r. s = p @ r" ..
next
  assume "\<exists>r. s = p @ r"
  then show "startsWith s p" by (auto simp: startsWith_def)
qed

lemma startsWith_TAGS_special:
  assumes "startsWith path TAGS_FOLDER"
  shows "startsWith path SPECIAL_FOLDER" and "path \<noteq> SPECIAL_FOLDER"
proof -
  from assms obtain r where "path = TAGS_FOLDER @ r"
    by (auto simp: startsWith_iff)
  then have p: "path = ''/$/tags/'' @ r"
    by (simp add: TAGS_FOLDER_def SPECIAL_FOLDER_def TAGS_FOLDER_NAME_def)
  show "startsWith path SPECIAL_FOLDER"
    by (simp add: p startsWith_def SPECIAL_FOLDER_def)
  show "path \<noteq> SPECIAL_FOLDER"
    by (simp add: p SPECIAL_FOLDER_def)
qed


subsection \<open>Running the example collaborator\<close>

lemma exampleEnv_simps [simp]:
  "newHeaders (exampleEnv d) raw = Inr raw"
  "parseURL (exampleEnv d) = exampleParseURL"
  "resolveURL (exampleEnv d) u = Inl (Error ''DNS lookup failed'')"
  "Bitdrive (exampleEnv d) k = Inr (if k = key d then Some d else None)"
  "ready (exampleEnv d) a = Inr a"
  "peerOpens (exampleEnv d) ms a = None"
  "metadataUpdate (exampleEnv d) a = Inr a"
  "checkout (exampleEnv d) a va = Inl (Error ''No such version'')"
  "getTaggedVersion (exampleEnv d) a n =
     (case map_of (store a) n of None \<Rightarrow> Inl (Error ''Tag not found'') | Some v \<Rightarrow> Inr v)"
  "getAllTags (exampleEnv d) a = Inr (store a)"
  "deleteTag (exampleEnv d) a None = Inl (Error ''Tag not found'')"
  "deleteTag (exampleEnv d) a (Some t) =
     (case map_of (store a) t of
        None \<Rightarrow> Inl (Error ''Tag not found'')
      | Some _ \<Rightarrow> Inr (a\<lparr>version := version a + 1, store := AList.delete t (store a)\<rparr>))"
  "createTag (exampleEnv d) a n v =
     Inr (a\<lparr>version := version a + 1, store := AList.update n v (store a)\<rparr>)"
  "registerExtension (exampleEnv d) a n = Inr (a\<lparr>extensions := extensions a @ [n]\<rparr>)"
  "extSend (exampleEnv d) a n c pr = Inr a"
  "extBroadcast (exampleEnv d) a n c = Inr a"
  "makeDir (exampleEnv d) a p = Inr a"
  "writeFile (exampleEnv d) a p bd = Inr (a\<lparr>version := version a + 1\<rparr>)"
  "clear (exampleEnv d) a p = Inr a"
  "statPath (exampleEnv d) a p =
     (if p = ''/hello.txt'' then Inr (StatOne helloStat) else Inl (Error ''Not found''))"
  "rmdir (exampleEnv d) a p = Inl (Error ''Not a directory'')"
  "unlink (exampleEnv d) a p = Inr (a\<lparr>version := version a + 1\<rparr>)"
  "getContent (exampleEnv d) a = Inr ''c0ffee''"
  "download (exampleEnv d) a p = Inr a"
  "resolveBitPath (exampleEnv d) a p =
     (if p = ''/hello.txt'' then Inr (p, helloStat) else Inl (Error ''Not Found''))"
  "readdir (exampleEnv d) a p = Inr []"
  "fileStats (exampleEnv d) a p = Inl (Error ''No stats'')"
  "mimeGetType (exampleEnv d) p = (if endsWith p ''.txt'' then Some ''text/plain'' else None)"
  "parseRange (exampleEnv d) = exampleParseRange"
  by (simp_all add: exampleEnv_def)

lemmas prepare_defs =
  prepare_def parseBitURL_def resolveKey_def normalizePath_def syncArchive_def
  checkoutVersion_def shouldIntercept_def startsWith_def Let_def

lemmas example_defs =
  exampleDrive_def exampleOptions_def exampleRequest_def exampleParseURL_def
  exampleParseRange_def helloStat_def

lemma example_prepare_tag:
  "prepare opts (exampleEnv exampleDrive) (exampleRequest m ''bit://abcd/$/tags/v1'' hs) rh0
     = Inr (exampleDrive, ''/$/tags/v1'', None, [])"
  by (simp add: prepare_defs example_defs)

lemma example_bitFetch_ready:
  assumes "shouldIntercept opts (url req)"
    and "prepare opts (exampleEnv d) req baseHeaders = Inr (archive, path, urlVersion, searchPs)"
  shows "bitFetch opts (exampleEnv d) req =
           respond (afterReady opts (exampleEnv d) archive path urlVersion searchPs req baseHeaders)"
  using bitFetch_ready[OF assms(1), of "exampleEnv d" "rawHeaders req"] assms(2) by simp

section \<open>Write operations without the capability\<close>



section \<open>Unknown archives and thrown values\<close>

lemma catchBlock_not_nullish:
  "e \<noteq> Nullish \<Longrightarrow>
     catchBlock e rh
       = Inr \<lparr>statusCode = (if thrownMessage e = Some NOT_WRITABLE_ERROR then 403 else 500),
              statusText = Some (if thrownMessage e = Some NOT_WRITABLE_ERROR
                                 then ''Not Authorized'' else ''Server Error''),
              headers = Some rh, header = None, data = ErrorStack e\<rparr>"
  by (simp add: catchBlock_def Let_def)

lemma respond_escapes_iff:
  "(\<exists>e'. respond out = Inl e') \<longleftrightarrow> (\<exists>rh. out = Throw Nullish rh)"
  by (cases out) (auto simp: respond_def catchBlock_def Let_def)

text \<open>
  Claim C5, as the specification states it: once the scheme test has passed no exception
  leaves the call, every exception thrown in the \<^verbatim>\<open>try\<close> block being turned into a
  response. That fails when the thrown value is \<^verbatim>\<open>null\<close> or \<^verbatim>\<open>undefined\<close>. On the
  example collaborator with a \<^verbatim>\<open>Bitdrive\<close> that throws \<^verbatim>\<open>null\<close>, the request
  \<^verbatim>\<open>GET bit://abcd/a.txt\<close> passes the scheme test, the \<^verbatim>\<open>try\<close> block throws
  \<^verbatim>\<open>null\<close>, the \<^verbatim>\<open>catch\<close> reads \<^verbatim>\<open>e.message\<close>, and the \<^verbatim>\<open>TypeError\<close> of that
  read leaves the call.
\<close>

theorem thrown_null_leaves_the_call:
  "shouldIntercept exampleOptions (url (exampleRequest ''GET'' ''bit://abcd/a.txt'' []))
   \<and> tryBlock exampleOptions nullThrowingEnv
        (withHeaders (exampleRequest ''GET'' ''bit://abcd/a.txt'' []) (map_of [])) baseHeaders
      = Throw Nullish baseHeaders
   \<and> bitFetch exampleOptions nullThrowingEnv (exampleRequest ''GET'' ''bit://abcd/a.txt'' [])
      = Inl (Error ''Cannot read properties of null (reading 'message')'')"
  by (simp add: bitFetch_def respond_def catchBlock_def tryBlock_def prepare_defs
        nullThrowingEnv_def withHeaders_def example_defs)

text \<open>
  Claim C5, amended. For a request that passes the scheme test and whose \<^verbatim>\<open>Headers\<close>
  object is built:
  \<^item> when the collaborator turns the key into no handle, the response has status 404 and
    the body \<^verbatim>\<open>Unknown drive\<close>;
  \<^item> a value thrown in the \<^verbatim>\<open>try\<close> block that is neither \<^verbatim>\<open>null\<close> nor
    \<^verbatim>\<open>undefined\<close> becomes the response of the \<^verbatim>\<open>catch\<close>, with the headers written
    up to the throw and the stack as body: 403 when its message is the not-writable text,
    500 otherwise;
  \<^item> an exception leaves the call exactly when the \<^verbatim>\<open>try\<close> block throws \<^verbatim>\<open>null\<close> or
    \<^verbatim>\<open>undefined\<close>;
  \<^item> what the collaborator throws while the URL is parsed, a dotted domain is resolved
    or the archive is loaded is what the \<^verbatim>\<open>try\<close> block throws: nothing on the way
    swallows or replaces it.
\<close>

theorem thrown_values_caught_unless_nullish:
  assumes "shouldIntercept opts (url req)"
    and "newHeaders env (rawHeaders req) = Inr h"
  shows "(\<forall>parsed key0 uv k.
            parseBitURL env (url req) = Inr (parsed, key0, uv) \<longrightarrow>
            resolveKey env key0 = Inr k \<longrightarrow> Bitdrive env k = Inr None \<longrightarrow>
            bitFetch opts env req = Inr (mkResponse 404 baseHeaders (Text ''Unknown drive''), None))
       \<and> (\<forall>e rh. tryBlock opts env (withHeaders req h) baseHeaders = Throw e rh
                   \<and> e \<noteq> Nullish \<longrightarrow>
            (\<exists>r. bitFetch opts env req = Inr (r, None)
                 \<and> statusCode r = (if thrownMessage e = Some NOT_WRITABLE_ERROR then 403 else 500)
                 \<and> headers r = Some rh \<and> data r = ErrorStack e))
       \<and> ((\<exists>e'. bitFetch opts env req = Inl e')
            \<longleftrightarrow> (\<exists>rh. tryBlock opts env (withHeaders req h) baseHeaders = Throw Nullish rh))
       \<and> (\<forall>e. parseURL env (url req) = Inl e \<longrightarrow>
            tryBlock opts env (withHeaders req h) baseHeaders = Throw e baseHeaders)
       \<and> (\<forall>parsed key0 uv e.
            parseBitURL env (url req) = Inr (parsed, key0, uv)
            \<and> resolveURL env (''bit://'' @ key0) = Inl e \<and> str_includes key0 ''.'' \<longrightarrow>
            tryBlock opts env (withHeaders req h) baseHeaders = Throw e baseHeaders)
       \<and> (\<forall>parsed key0 uv k e.
            parseBitURL env (url req) = Inr (parsed, key0, uv)
            \<and> resolveKey env key0 = Inr k \<and> Bitdrive env k = Inl e \<longrightarrow>
            tryBlock opts env (withHeaders req h) baseHeaders = Throw e baseHeaders)"
proof -
  let ?req = "withHeaders req h"
  have u: "url ?req = url req" by (simp add: withHeaders_def)
  have bf: "bitFetch opts env req = respond (tryBlock opts env ?req baseHeaders)"
    using assms by (simp add: bitFetch_def)
  have c1: "bitFetch opts env req = Inr (mkResponse 404 baseHeaders (Text ''Unknown drive''), None)"
    if "parseBitURL env (url req) = Inr (parsed, key0, uv)" "resolveKey env key0 = Inr k"
      "Bitdrive env k = Inr None" for parsed key0 uv k
  proof -
    from that have "tryBlock opts env ?req baseHeaders
                      = Return (mkResponse 404 baseHeaders (Text ''Unknown drive'')) None"
      by (simp add: tryBlock_def prepare_def Let_def u)
    then show ?thesis by (simp add: bf respond_def)
  qed
  have c2: "\<exists>r. bitFetch opts env req = Inr (r, None)
                 \<and> statusCode r = (if thrownMessage e = Some NOT_WRITABLE_ERROR then 403 else 500)
                 \<and> headers r = Some rh \<and> data r = ErrorStack e"
    if "tryBlock opts env ?req baseHeaders = Throw e rh \<and> e \<noteq> Nullish" for e rh
    using that by (simp add: bf respond_def catchBlock_not_nullish)
  have c3: "(\<exists>e'. bitFetch opts env req = Inl e')
            \<longleftrightarrow> (\<exists>rh. tryBlock opts env ?req baseHeaders = Throw Nullish rh)"
    by (simp add: bf respond_escapes_iff)
  have c4: "tryBlock opts env ?req baseHeaders = Throw e baseHeaders"
    if "parseURL env (url req) = Inl e" for e
    using that by (simp add: tryBlock_def prepare_def parseBitURL_def u)
  have c5: "tryBlock opts env ?req baseHeaders = Throw e baseHeaders"
    if "parseBitURL env (url req) = Inr (parsed, key0, uv)
        \<and> resolveURL env (''bit://'' @ key0) = Inl e \<and> str_includes key0 ''.''"
    for parsed key0 uv e
    using that by (simp add: tryBlock_def prepare_def resolveKey_def Let_def u)
  have c6: "tryBlock opts env ?req baseHeaders = Throw e baseHeaders"
    if "parseBitURL env (url req) = Inr (parsed, key0, uv)
        \<and> resolveKey env key0 = Inr k \<and> Bitdrive env k = Inl e"
    for parsed key0 uv k e
    using that by (simp add: tryBlock_def prepare_def Let_def u)
  from c1 c2 c3 c4 c5 c6 show ?thesis by blast
qed

lemma example_prepare_unknown:
  "prepare opts (exampleEnv exampleDrive) (exampleRequest m ''bit://ffff/a.txt'' hs) rh0
     = Inl (Return (mkResponse 404 rh0 (Text ''Unknown drive'')) None)"
  by (simp add: prepare_defs example_defs)

lemma example_tryBlock_badtag:
  "tryBlock opts (exampleEnv exampleDrive) (exampleRequest m ''bit://abcd+v9/a.txt'' hs) rh0
     = Throw (Error ''Tag not found'') rh0"
  by (simp add: tryBlock_def prepare_defs example_defs NUMBER_REGEX_test_def isDigit_def)

theorem thrown_values_caught_unless_nullish_witness:
  "bitFetch exampleOptions (exampleEnv exampleDrive) (exampleRequest ''GET'' ''bit://ffff/a.txt'' [])
     = Inr (mkResponse 404 baseHeaders (Text ''Unknown drive''), None)
   \<and> (\<exists>r. bitFetch exampleOptions (exampleEnv exampleDrive)
              (exampleRequest ''GET'' ''bit://abcd+v9/a.txt'' []) = Inr (r, None)
          \<and> statusCode r = 500 \<and> headers r = Some baseHeaders
          \<and> data r = ErrorStack (Error ''Tag not found''))"
proof
  let ?req = "exampleRequest ''GET'' ''bit://ffff/a.txt'' []"
  have s: "shouldIntercept exampleOptions (url ?req)"
    by (simp add: shouldIntercept_def startsWith_def exampleRequest_def)
  have nh: "newHeaders (exampleEnv exampleDrive) (rawHeaders ?req) = Inr (rawHeaders ?req)"
    by simp
  have p: "parseBitURL (exampleEnv exampleDrive) (url ?req)
            = Inr (\<lparr>hostname = ''ffff'', pathname = ''/a.txt'', searchParams = []\<rparr>, ''ffff'', None)"
    by (simp add: prepare_defs example_defs)
  have k: "resolveKey (exampleEnv exampleDrive) ''ffff'' = Inr ''ffff''"
    by (simp add: resolveKey_def startsWith_def)
  have b: "Bitdrive (exampleEnv exampleDrive) ''ffff'' = Inr None"
    by (simp add: exampleDrive_def)
  from thrown_values_caught_unless_nullish[OF s nh] p k b
  show "bitFetch exampleOptions (exampleEnv exampleDrive) ?req
        = Inr (mkResponse 404 baseHeaders (Text ''Unknown drive''), None)"
    by blast
next
  let ?req = "exampleRequest ''GET'' ''bit://abcd+v9/a.txt'' []"
  have s: "shouldIntercept exampleOptions (url ?req)"
    by (simp add: shouldIntercept_def startsWith_def exampleRequest_def)
  have nh: "newHeaders (exampleEnv exampleDrive) (rawHeaders ?req) = Inr (rawHeaders ?req)"
    by simp
  have t: "tryBlock exampleOptions (exampleEnv exampleDrive)
             (withHeaders ?req (rawHeaders ?req)) baseHeaders
           = Throw (Error ''Tag not found'') baseHeaders
           \<and> Error ''Tag not found'' \<noteq> Nullish"
    by (simp add: withHeaders_def example_tryBlock_badtag)
  have n: "thrownMessage (Error ''Tag not found'') \<noteq> Some NOT_WRITABLE_ERROR"
    by (simp add: NOT_WRITABLE_ERROR_def)
  from thrown_values_caught_unless_nullish[OF s nh] t
  have "\<exists>r. bitFetch exampleOptions (exampleEnv exampleDrive) ?req = Inr (r, None)
          \<and> statusCode r = (if thrownMessage (Error ''Tag not found'') = Some NOT_WRITABLE_ERROR
                             then 403 else 500)
          \<and> headers r = Some baseHeaders \<and> data r = ErrorStack (Error ''Tag not found'')"
    by blast
  with n show "\<exists>r. bitFetch exampleOptions (exampleEnv exampleDrive) ?req = Inr (r, None)
          \<and> statusCode r = 500 \<and> headers r = Some baseHeaders
          \<and> data r = ErrorStack (Error ''Tag not found'')"
    by auto
qed

section \<open>Byte ranges\<close>




lemma show_nat_examples:
  "show_nat 0 = ''0''" "show_nat 5 = ''5''" "show_nat 6 = ''6''" "show_nat 7 = ''7''"
  "show_nat 49 = ''49''" "show_nat 50 = ''50''" "show_nat 100 = ''100''"
  by (simp_all add: show_nat.simps digit_def)


section \<open>Tags\<close>

lemma tag_path_facts:
  "startsWith (TAGS_FOLDER @ T) TAGS_FOLDER"
  "startsWith (TAGS_FOLDER @ T) SPECIAL_FOLDER"
  "TAGS_FOLDER @ T \<noteq> SPECIAL_FOLDER"
  "drop (length TAGS_FOLDER) (TAGS_FOLDER @ T) = T"
  "T \<noteq> [] \<Longrightarrow> TAGS_FOLDER @ T \<noteq> TAGS_FOLDER"
proof -
  show t: "startsWith (TAGS_FOLDER @ T) TAGS_FOLDER" by (simp add: startsWith_iff)
  from startsWith_TAGS_special[OF t]
  show "startsWith (TAGS_FOLDER @ T) SPECIAL_FOLDER" "TAGS_FOLDER @ T \<noteq> SPECIAL_FOLDER"
    by simp_all
qed simp_all

lemma tagsRoute:
  "afterReady opts env archive (TAGS_FOLDER @ T) uv sp req rh0
     = tagsFolder opts env archive (TAGS_FOLDER @ T) uv req
         (readyHeaders opts archive (TAGS_FOLDER @ T) rh0)"
  by (simp add: afterReady_def specialFolder_def tag_path_facts Let_def)

lemma checkWritable_ok:
  "opt_writable opts \<Longrightarrow> writable archive \<Longrightarrow> checkWritable opts archive = Inr ()"
  by (simp add: checkWritable_def)

text \<open>
  Claim C3. Tag round-trip, for a tag name \<open>T\<close> (a name is not empty: the path
  \<^verbatim>\<open>/$/tags/\<close> itself is the listing of all tags) on an archive that is ready, with the
  GET running on the archive as the PUT or DELETE left it. The tag store belongs to the
  collaborator; what is asked of it is that a created tag is found with its version and
  that a deleted tag is not found. On a writable archive at version \<open>V\<close>, a PUT of
  \<^verbatim>\<open>/$/tags/T\<close> that the collaborator accepts returns \<open>V\<close> as plain text and the GET
  that follows returns the same \<open>V\<close>; after a DELETE the collaborator accepts, the GET
  that follows is answered 404 by the branch itself: it returns, it does not throw.
\<close>

theorem tag_roundtrip:
  assumes T: "T \<noteq> []"
    and w: "opt_writable opts" "writable archive"
    and m: "reqMethod putReq = ''PUT''" "reqMethod getReq = ''GET''"
           "reqMethod delReq = ''DELETE''"
    and create_law:
      "\<forall>a n v a'. createTag env a n v = Inr a' \<longrightarrow> getTaggedVersion env a' n = Inr v"
    and delete_law:
      "\<forall>a n a'. deleteTag env a (Some n) = Inr a'
         \<longrightarrow> (\<exists>e. getTaggedVersion env a' n = Inl e)"
  shows "(\<forall>a1. createTag env archive T (version archive) = Inr a1 \<longrightarrow>
            (\<exists>r1 r2.
               afterReady opts env archive (TAGS_FOLDER @ T) uv sp putReq rh0 = Return r1 (Some a1)
               \<and> statusCode r1 = 200
               \<and> responseHeader r1 ''Content-Type'' = Some ''text/plain; charset=utf-8''
               \<and> data r1 = Text (show_nat (version archive))
               \<and> afterReady opts env a1 (TAGS_FOLDER @ T) uv' sp' getReq rh0' = Return r2 (Some a1)
               \<and> statusCode r2 = 200
               \<and> data r2 = Text (show_nat (version archive))))
       \<and> (\<forall>a2. deleteTag env archive (Some T) = Inr a2 \<longrightarrow>
            (\<exists>r3 r4.
               afterReady opts env archive (TAGS_FOLDER @ T) uv sp delReq rh0 = Return r3 (Some a2)
               \<and> statusCode r3 = 200
               \<and> afterReady opts env a2 (TAGS_FOLDER @ T) uv' sp' getReq rh0' = Return r4 (Some a2)
               \<and> statusCode r4 = 404
               \<and> data r4 = Text ''Tag Not Found''))"
proof (intro conjI allI impI)
  fix a1
  assume c: "createTag env archive T (version archive) = Inr a1"
  have put: "\<exists>r1. afterReady opts env archive (TAGS_FOLDER @ T) uv sp putReq rh0 = Return r1 (Some a1)
               \<and> statusCode r1 = 200
               \<and> responseHeader r1 ''Content-Type'' = Some ''text/plain; charset=utf-8''
               \<and> data r1 = Text (show_nat (version archive))"
    using m(1) c checkWritable_ok[OF w]
    by (simp add: tagsRoute tagsFolder_def tag_path_facts Let_def mkResponse_def
          responseHeader_def map_of_hset)
  from create_law[rule_format, OF c] have g: "getTaggedVersion env a1 T = Inr (version archive)" .
  have get: "\<exists>r2. afterReady opts env a1 (TAGS_FOLDER @ T) uv' sp' getReq rh0' = Return r2 (Some a1)
               \<and> statusCode r2 = 200 \<and> data r2 = Text (show_nat (version archive))"
    using m(2) g T
    by (simp add: tagsRoute tagsFolder_def tag_path_facts Let_def mkResponse_def)
  from put get show "\<exists>r1 r2.
               afterReady opts env archive (TAGS_FOLDER @ T) uv sp putReq rh0 = Return r1 (Some a1)
               \<and> statusCode r1 = 200
               \<and> responseHeader r1 ''Content-Type'' = Some ''text/plain; charset=utf-8''
               \<and> data r1 = Text (show_nat (version archive))
               \<and> afterReady opts env a1 (TAGS_FOLDER @ T) uv' sp' getReq rh0' = Return r2 (Some a1)
               \<and> statusCode r2 = 200
               \<and> data r2 = Text (show_nat (version archive))"
    by blast
next
  fix a2
  assume d: "deleteTag env archive (Some T) = Inr a2"
  have del: "\<exists>r3. afterReady opts env archive (TAGS_FOLDER @ T) uv sp delReq rh0 = Return r3 (Some a2)
               \<and> statusCode r3 = 200"
    using m(3) d T checkWritable_ok[OF w]
    by (simp add: tagsRoute tagsFolder_def tag_path_facts Let_def mkResponse_def)
  from delete_law[rule_format, OF d] obtain e where g: "getTaggedVersion env a2 T = Inl e" ..
  have get: "\<exists>r4. afterReady opts env a2 (TAGS_FOLDER @ T) uv' sp' getReq rh0' = Return r4 (Some a2)
               \<and> statusCode r4 = 404 \<and> data r4 = Text ''Tag Not Found''"
    using m(2) g T
    by (simp add: tagsRoute tagsFolder_def tag_path_facts Let_def mkResponse_def)
  from del get show "\<exists>r3 r4.
               afterReady opts env archive (TAGS_FOLDER @ T) uv sp delReq rh0 = Return r3 (Some a2)
               \<and> statusCode r3 = 200
               \<and> afterReady opts env a2 (TAGS_FOLDER @ T) uv' sp' getReq rh0' = Return r4 (Some a2)
               \<and> statusCode r4 = 404
               \<and> data r4 = Text ''Tag Not Found''"
    by blast
qed

theorem tag_roundtrip_witness:
  "(\<exists>r1 r2.
      afterReady exampleOptions (exampleEnv taggedDrive) taggedDrive ''/$/tags/v1'' None []
        (exampleRequest ''PUT'' ''bit://abcd/$/tags/v1'' []) baseHeaders
        = Return r1 (Some (taggedDrive\<lparr>version := 6, store := [(''v1'', 5)]\<rparr>))
      \<and> data r1 = Text ''5''
      \<and> afterReady exampleOptions (exampleEnv taggedDrive)
          (taggedDrive\<lparr>version := 6, store := [(''v1'', 5)]\<rparr>) ''/$/tags/v1'' None []
          (exampleRequest ''GET'' ''bit://abcd/$/tags/v1'' []) baseHeaders
        = Return r2 (Some (taggedDrive\<lparr>version := 6, store := [(''v1'', 5)]\<rparr>))
      \<and> statusCode r2 = 200 \<and> data r2 = Text ''5'')
   \<and> (\<exists>r3 r4.
      afterReady exampleOptions (exampleEnv taggedDrive) taggedDrive ''/$/tags/v1'' None []
        (exampleRequest ''DELETE'' ''bit://abcd/$/tags/v1'' []) baseHeaders
        = Return r3 (Some (taggedDrive\<lparr>version := 6, store := []\<rparr>))
      \<and> statusCode r3 = 200
      \<and> afterReady exampleOptions (exampleEnv taggedDrive)
          (taggedDrive\<lparr>version := 6, store := []\<rparr>) ''/$/tags/v1'' None []
          (exampleRequest ''GET'' ''bit://abcd/$/tags/v1'' []) baseHeaders
        = Return r4 (Some (taggedDrive\<lparr>version := 6, store := []\<rparr>))
      \<and> statusCode r4 = 404)"
proof -
  have T: "''v1'' \<noteq> []" by simp
  have w: "opt_writable exampleOptions" "writable taggedDrive"
    by (simp_all add: exampleOptions_def taggedDrive_def exampleDrive_def)
  have m: "reqMethod (exampleRequest ''PUT'' ''bit://abcd/$/tags/v1'' []) = ''PUT''"
    "reqMethod (exampleRequest ''GET'' ''bit://abcd/$/tags/v1'' []) = ''GET''"
    "reqMethod (exampleRequest ''DELETE'' ''bit://abcd/$/tags/v1'' []) = ''DELETE''"
    by (simp_all add: exampleRequest_def)
  have create_law: "\<forall>a n v a'. createTag (exampleEnv taggedDrive) a n v = Inr a'
      \<longrightarrow> getTaggedVersion (exampleEnv taggedDrive) a' n = Inr v"
    by (auto simp: update_conv')
  have delete_law: "\<forall>a n a'. deleteTag (exampleEnv taggedDrive) a (Some n) = Inr a'
      \<longrightarrow> (\<exists>e. getTaggedVersion (exampleEnv taggedDrive) a' n = Inl e)"
    by (auto simp: delete_conv' split: option.splits)
  have p: "TAGS_FOLDER @ ''v1'' = ''/$/tags/v1''"
    by (simp add: TAGS_FOLDER_def SPECIAL_FOLDER_def TAGS_FOLDER_NAME_def)
  have c: "createTag (exampleEnv taggedDrive) taggedDrive ''v1'' (version taggedDrive)
             = Inr (taggedDrive\<lparr>version := 6, store := [(''v1'', 5)]\<rparr>)"
    by (simp add: taggedDrive_def exampleDrive_def)
  have d: "deleteTag (exampleEnv taggedDrive) taggedDrive (Some ''v1'')
             = Inr (taggedDrive\<lparr>version := 6, store := []\<rparr>)"
    by (simp add: taggedDrive_def exampleDrive_def)
  have v: "show_nat (version taggedDrive) = ''5''"
    by (simp add: taggedDrive_def exampleDrive_def show_nat_examples)
  from tag_roundtrip[OF T w m create_law delete_law, where uv = None and sp = "[]"
      and ?rh0.0 = baseHeaders and uv' = None and sp' = "[]" and rh0' = baseHeaders] c d
  show ?thesis unfolding p v by blast
qed


section \<open>The \<^verbatim>\<open>.well-known\<close> record\<close>

lemma getOrHead_single_eq: "getOrHead_single = getOrHead"
  by (intro ext) (simp add: getOrHead_def getOrHead_single_def Let_def cong: if_cong)

lemma fileMethods_single_eq: "fileMethods_single = fileMethods"
  by (intro ext) (simp add: fileMethods_def fileMethods_single_def getOrHead_single_eq)

lemma afterReady_single_eq: "afterReady_single = afterReady"
  by (intro ext, unfold afterReady_def afterReady_single_def fileMethods_single_eq, rule refl)

lemma tryBlock_single_eq: "tryBlock_single = tryBlock"
  by (intro ext, unfold tryBlock_def tryBlock_single_def afterReady_single_eq, rule refl)

text \<open>
  Claim C9. Both \<^verbatim>\<open>.well-known\<close> tests compare \<^verbatim>\<open>finalPath\<close> with
  \<^verbatim>\<open>/.well-known/bit\<close> and return the same record, \<^verbatim>\<open>bit://<hex key>\<close>, a newline
  and \<^verbatim>\<open>ttl=3600\<close>, with status 200. The second can never be taken: the dispatcher
  without it returns what the dispatcher as written returns, on every input.
\<close>

theorem wellKnown_second_branch_redundant:
  "bitFetch_single opts env req = bitFetch opts env req
   \<and> getOrHead_single env archive path searchPs req rh = getOrHead env archive path searchPs req rh
   \<and> (\<forall>archive'.
        path = ''/.well-known/bit''
        \<and> \<not> (reqMethod req = ''GET'' \<and> hget req ''Accept'' = Some ''text/event-stream'')
        \<and> (if hget req ''x-download'' = Some ''cache'' then download env archive path
            else Inr archive) = Inr archive' \<longrightarrow>
        getOrHead env archive path searchPs req rh
          = Return (mkResponse 200 rh (Text (''bit://'' @ key archive' @ ''\<newline>ttl=3600'')))
              (Some archive'))"
proof (intro conjI allI impI)
  show "bitFetch_single opts env req = bitFetch opts env req"
    unfolding bitFetch_def bitFetch_single_def tryBlock_single_eq by (rule refl)
  show "getOrHead_single env archive path searchPs req rh
          = getOrHead env archive path searchPs req rh"
    by (simp add: getOrHead_single_eq)
next
  fix archive'
  assume "path = ''/.well-known/bit''
        \<and> \<not> (reqMethod req = ''GET'' \<and> hget req ''Accept'' = Some ''text/event-stream'')
        \<and> (if hget req ''x-download'' = Some ''cache'' then download env archive path
            else Inr archive) = Inr archive'"
  then show "getOrHead env archive path searchPs req rh
          = Return (mkResponse 200 rh (Text (''bit://'' @ key archive' @ ''\<newline>ttl=3600'')))
              (Some archive')"
    by (auto simp: getOrHead_def Let_def)
qed

lemma example_prepare_wellKnown:
  "prepare opts (exampleEnv exampleDrive) (exampleRequest m ''bit://abcd/.well-known/bit'' hs) rh0
     = Inr (exampleDrive, ''/.well-known/bit'', None, [])"
  by (simp add: prepare_defs example_defs)

theorem wellKnown_second_branch_redundant_witness:
  "getOrHead (exampleEnv exampleDrive) exampleDrive ''/.well-known/bit'' []
     (exampleRequest ''GET'' ''bit://abcd/.well-known/bit'' []) baseHeaders
   = Return (mkResponse 200 baseHeaders (Text ''bit://abcd\<newline>ttl=3600'')) (Some exampleDrive)
   \<and> bitFetch_single exampleOptions (exampleEnv exampleDrive)
       (exampleRequest ''GET'' ''bit://abcd/.well-known/bit'' [])
     = bitFetch exampleOptions (exampleEnv exampleDrive)
         (exampleRequest ''GET'' ''bit://abcd/.well-known/bit'' [])"
  using wellKnown_second_branch_redundant
    [of exampleOptions "exampleEnv exampleDrive"
        "exampleRequest ''GET'' ''bit://abcd/.well-known/bit'' []" exampleDrive
        "''/.well-known/bit''" "[]" baseHeaders]
  by (simp add: exampleRequest_def hget_def exampleDrive_def)

section \<open>The extension channel and the event stream\<close>

lemma extension_path_facts:
  assumes "startsWith path EXTENSIONS_FOLDER"
  shows "startsWith path SPECIAL_FOLDER" "path \<noteq> SPECIAL_FOLDER"
    "\<not> startsWith path TAGS_FOLDER" "path \<noteq> ''/.well-known/bit''"
proof -
  from assms obtain r where "path = EXTENSIONS_FOLDER @ r"
    by (auto simp: startsWith_iff)
  then have p: "path = ''/$/extensions/'' @ r"
    by (simp add: EXTENSIONS_FOLDER_def SPECIAL_FOLDER_def EXTENSIONS_FOLDER_NAME_def)
  show "startsWith path SPECIAL_FOLDER"
    by (simp add: p startsWith_def SPECIAL_FOLDER_def)
  show "path \<noteq> SPECIAL_FOLDER"
    by (simp add: p SPECIAL_FOLDER_def)
  show "\<not> startsWith path TAGS_FOLDER"
    by (simp add: p startsWith_def TAGS_FOLDER_def SPECIAL_FOLDER_def TAGS_FOLDER_NAME_def)
  show "path \<noteq> ''/.well-known/bit''"
    by (simp add: p)
qed

text \<open>
  Claim C10. A GET of \<^verbatim>\<open>/$/extensions/NAME\<close> whose \<^verbatim>\<open>Accept\<close> header includes
  \<^verbatim>\<open>text/event-stream\<close> gets no response from the extension branch: control leaves
  the control namespace and the request is handled as a GET of the file path
  \<^verbatim>\<open>/$/extensions/NAME\<close>. With \<^verbatim>\<open>Accept\<close> equal to \<^verbatim>\<open>text/event-stream\<close> that
  is the change-event stream of the path; otherwise it is path resolution, which answers
  404 when the path does not resolve (when resolution throws anything but \<^verbatim>\<open>null\<close> or
  \<^verbatim>\<open>undefined\<close>).
\<close>

theorem extension_channel_event_stream_falls_through:
  assumes "startsWith path EXTENSIONS_FOLDER" and "path \<noteq> EXTENSIONS_FOLDER"
    and "reqMethod req = ''GET''"
    and "hget req ''Accept'' = Some accept"
    and "str_includes accept ''text/event-stream''"
  shows "extensionChannel env archive path req rh = None
     \<and> specialFolder opts env archive path uv req rh = None
     \<and> afterReady opts env archive path uv searchPs req rh0
         = getOrHead env archive path searchPs req (readyHeaders opts archive path rh0)
     \<and> (accept = ''text/event-stream'' \<longrightarrow>
          getOrHead env archive path searchPs req rh
            = await (getContent env archive) rh (\<lambda>contentFeed.
                Return (mkResponse 200 (hset ''Content-Type'' ''text/event-stream'' rh)
                          (ChangeEvents path contentFeed)) (Some archive)))
     \<and> (accept \<noteq> ''text/event-stream'' \<longrightarrow>
          getOrHead env archive path searchPs req rh
            = await (if hget req ''x-download'' = Some ''cache'' then download env archive path
                     else Inr archive) rh
                (\<lambda>archive'. resolveAndServe env archive' path searchPs req rh))
     \<and> (\<forall>e. accept \<noteq> ''text/event-stream'' \<and> hget req ''x-download'' \<noteq> Some ''cache''
             \<and> resolveStat env archive path searchPs = Inl e \<and> e \<noteq> Nullish \<longrightarrow>
          afterReady opts env archive path uv searchPs req rh0
            = Return (mkResponse 404
                        (hset ''Content-Type'' ''text/plain; charset=utf-8''
                           (readyHeaders opts archive path rh0))
                        (ErrorStack e)) (Some archive))"
proof -
  note pf = extension_path_facts[OF assms(1)]
  have ec: "extensionChannel env archive path req rh = None" for rh
    using assms(3,4,5) by (simp add: extensionChannel_def Let_def)
  have sf: "specialFolder opts env archive path uv req rh = None" for rh
    using assms(1,2) pf ec by (simp add: specialFolder_def)
  have ar: "afterReady opts env archive path uv searchPs req rh0
         = getOrHead env archive path searchPs req (readyHeaders opts archive path rh0)"
    using pf sf assms(3) by (simp add: afterReady_def fileMethods_def Let_def)
  have g1: "getOrHead env archive path searchPs req rh
            = await (getContent env archive) rh (\<lambda>contentFeed.
                Return (mkResponse 200 (hset ''Content-Type'' ''text/event-stream'' rh)
                          (ChangeEvents path contentFeed)) (Some archive))"
    if "accept = ''text/event-stream''" for rh
    using that assms(3,4) by (simp add: getOrHead_def)
  have g2: "getOrHead env archive path searchPs req rh
            = await (if hget req ''x-download'' = Some ''cache'' then download env archive path
                     else Inr archive) rh
                (\<lambda>archive'. resolveAndServe env archive' path searchPs req rh)"
    if "accept \<noteq> ''text/event-stream''" for rh
    using that assms(3,4) pf by (simp add: getOrHead_def Let_def)
  have g3: "afterReady opts env archive path uv searchPs req rh0
            = Return (mkResponse 404
                        (hset ''Content-Type'' ''text/plain; charset=utf-8''
                           (readyHeaders opts archive path rh0))
                        (ErrorStack e)) (Some archive)"
    if "accept \<noteq> ''text/event-stream'' \<and> hget req ''x-download'' \<noteq> Some ''cache''
             \<and> resolveStat env archive path searchPs = Inl e \<and> e \<noteq> Nullish" for e
    using that by (simp add: ar g2 resolveAndServe_def Let_def)
  from ec sf ar g1 g2 g3 show ?thesis by blast
qed

theorem extension_channel_event_stream_falls_through_witness:
  "afterReady exampleOptions (exampleEnv exampleDrive) exampleDrive ''/$/extensions/chat'' None []
     (exampleRequest ''GET'' ''bit://abcd/$/extensions/chat'' [(''Accept'', ''text/event-stream'')])
     baseHeaders
   = Return (mkResponse 200
               (hset ''Content-Type'' ''text/event-stream''
                  (readyHeaders exampleOptions exampleDrive ''/$/extensions/chat'' baseHeaders))
               (ChangeEvents ''/$/extensions/chat'' ''c0ffee'')) (Some exampleDrive)
   \<and> (\<exists>e. afterReady exampleOptions (exampleEnv exampleDrive) exampleDrive ''/$/extensions/chat''
        None []
        (exampleRequest ''GET'' ''bit://abcd/$/extensions/chat''
           [(''Accept'', ''text/event-stream, */*'')]) baseHeaders
      = Return (mkResponse 404
                  (hset ''Content-Type'' ''text/plain; charset=utf-8''
                     (readyHeaders exampleOptions exampleDrive ''/$/extensions/chat'' baseHeaders))
                  (ErrorStack e)) (Some exampleDrive))"
proof
  let ?req = "exampleRequest ''GET'' ''bit://abcd/$/extensions/chat''
                [(''Accept'', ''text/event-stream'')]"
  have p: "startsWith ''/$/extensions/chat'' EXTENSIONS_FOLDER"
    "''/$/extensions/chat'' \<noteq> EXTENSIONS_FOLDER"
    by (simp_all add: startsWith_def EXTENSIONS_FOLDER_def SPECIAL_FOLDER_def
          EXTENSIONS_FOLDER_NAME_def)
  have m: "reqMethod ?req = ''GET''" "hget ?req ''Accept'' = Some ''text/event-stream''"
    by (simp_all add: exampleRequest_def hget_def)
  have i: "str_includes ''text/event-stream'' ''text/event-stream''"
    by (simp add: startsWith_def)
  from extension_channel_event_stream_falls_through[OF p m i,
      where opts = exampleOptions and env = "exampleEnv exampleDrive" and archive = exampleDrive
        and rh = "readyHeaders exampleOptions exampleDrive ''/$/extensions/chat'' baseHeaders"
        and uv = None and searchPs = "[]" and ?rh0.0 = baseHeaders]
  show "afterReady exampleOptions (exampleEnv exampleDrive) exampleDrive ''/$/extensions/chat''
          None [] ?req baseHeaders
        = Return (mkResponse 200
               (hset ''Content-Type'' ''text/event-stream''
                  (readyHeaders exampleOptions exampleDrive ''/$/extensions/chat'' baseHeaders))
               (ChangeEvents ''/$/extensions/chat'' ''c0ffee'')) (Some exampleDrive)"
    by simp
next
  let ?req = "exampleRequest ''GET'' ''bit://abcd/$/extensions/chat''
                [(''Accept'', ''text/event-stream, */*'')]"
  have p: "startsWith ''/$/extensions/chat'' EXTENSIONS_FOLDER"
    "''/$/extensions/chat'' \<noteq> EXTENSIONS_FOLDER"
    by (simp_all add: startsWith_def EXTENSIONS_FOLDER_def SPECIAL_FOLDER_def
          EXTENSIONS_FOLDER_NAME_def)
  have m: "reqMethod ?req = ''GET''" "hget ?req ''Accept'' = Some ''text/event-stream, */*''"
    by (simp_all add: exampleRequest_def hget_def)
  have i: "str_includes ''text/event-stream, */*'' ''text/event-stream''"
    by (simp add: startsWith_def)
  have x: "hget ?req ''x-download'' \<noteq> Some ''cache''"
    by (simp add: exampleRequest_def hget_def)
  have r: "resolveStat (exampleEnv exampleDrive) exampleDrive ''/$/extensions/chat'' []
             = Inl (Error ''Not Found'')"
    "Error ''Not Found'' \<noteq> Nullish"
    by (simp_all add: resolveStat_def)
  from extension_channel_event_stream_falls_through[OF p m i,
      where opts = exampleOptions and env = "exampleEnv exampleDrive" and archive = exampleDrive
        and rh = "readyHeaders exampleOptions exampleDrive ''/$/extensions/chat'' baseHeaders"
        and uv = None and searchPs = "[]" and ?rh0.0 = baseHeaders] x r
  show "\<exists>e. afterReady exampleOptions (exampleEnv exampleDrive) exampleDrive
          ''/$/extensions/chat'' None [] ?req baseHeaders
      = Return (mkResponse 404
                  (hset ''Content-Type'' ''text/plain; charset=utf-8''
                     (readyHeaders exampleOptions exampleDrive ''/$/extensions/chat'' baseHeaders))
                  (ErrorStack e)) (Some exampleDrive)"
    by blast
qed

section \<open>The header baseline and the \<^verbatim>\<open>ETag\<close>\<close>

text \<open>
  What every branch but one does. Outside the non-streaming GET of an extension channel,
  every response made once the archive is ready, the one of the \<^verbatim>\<open>catch\<close> included,
  carries the baseline under \<^verbatim>\<open>headers\<close> (\<open>baseline_outside_extension_get\<close>); a GET
  there carries the \<^verbatim>\<open>ETag\<close> of the version the archive was resolved at
  (\<open>get_etag_outside_extension_get\<close>); and a write operation that succeeds carries the
  \<^verbatim>\<open>ETag\<close> of the version the archive has after it (\<open>write_refreshes_etag\<close>), which is
  therefore the \<^verbatim>\<open>ETag\<close> of the GET that follows. The response of the non-streaming
  GET of an extension channel has no \<^verbatim>\<open>headers\<close> at all
  (\<open>extension_get_headers_absent\<close>).
\<close>

lemma keepsBaseline_refl [simp]: "keepsBaseline rh rh"
  by (simp add: keepsBaseline_def)

lemma keepsBaseline_hset:
  "name \<noteq> ''Access-Control-Allow-Origin'' \<Longrightarrow> name \<noteq> ''Link'' \<Longrightarrow> name \<noteq> ''Allow''
     \<Longrightarrow> name \<noteq> ''ETag''
     \<Longrightarrow> keepsBaseline rh (hset name v h) = keepsBaseline rh h"
  by (simp add: keepsBaseline_def map_of_hset)

lemma keepsBaseline_etag:
  "keepsBaseline rh h \<Longrightarrow> keepsBaseline rh (hset ''ETag'' (etag a) h)"
  by (auto simp: keepsBaseline_def map_of_hset etag_def)

lemma outcomeKeeps_simps [simp]:
  "outcomeKeeps rh (Return (mkResponse c h d) a) = keepsBaseline rh h"
  "outcomeKeeps rh (Throw e h) = keepsBaseline rh h"
  by (simp_all add: outcomeKeeps_def mkResponse_def)

lemma outcomeKeeps_await [simp]:
  "outcomeKeeps rh (await x h k)
     = (case x of Inl e \<Rightarrow> keepsBaseline rh h | Inr y \<Rightarrow> outcomeKeeps rh (k y))"
  by (simp add: await_def split: sum.splits)

lemma renderFiles_keeps:
  "renderFiles req h u p fs = (d, h') \<Longrightarrow> keepsBaseline rh h' = keepsBaseline rh h"
  by (auto simp: renderFiles_def keepsBaseline_hset split: if_splits)

lemma tagsFolder_keeps: "outcomeKeeps rh (tagsFolder opts env archive path uv req rh)"
  by (auto simp: tagsFolder_def Let_def keepsBaseline_hset keepsBaseline_etag split: sum.splits)

lemma renderFiles_snd_keeps [simp]:
  "keepsBaseline rh (snd (renderFiles req h u p fs)) = keepsBaseline rh h"
  by (simp add: renderFiles_def keepsBaseline_hset)

lemma extensionsRoot_keeps: "outcomeKeeps rh (extensionsRoot archive path req rh)"
  by (simp add: extensionsRoot_def Let_def keepsBaseline_hset case_prod_beta)

lemma putFile_keeps: "outcomeKeeps rh (putFile opts env archive path req rh)"
  by (simp add: putFile_def Let_def keepsBaseline_etag split: sum.splits)

lemma deleteFile_keeps: "outcomeKeeps rh (deleteFile opts env archive path req rh)"
  by (simp add: deleteFile_def Let_def keepsBaseline_etag split: sum.splits option.splits)

lemma serveFile_keeps [simp]:
  "keepsBaseline rh (fst (snd (serveFile env archive fp st req h))) = keepsBaseline rh h"
  by (simp add: serveFile_def Let_def keepsBaseline_hset
        split: sum.splits option.splits range_result.splits list.splits prod.splits)

lemma resolveAndServe_keeps: "outcomeKeeps rh (resolveAndServe env archive path sp req rh)"
  by (simp add: resolveAndServe_def Let_def keepsBaseline_hset case_prod_beta
        split: sum.splits option.splits)

lemma getOrHead_keeps: "outcomeKeeps rh (getOrHead env archive path sp req rh)"
  by (simp add: getOrHead_def Let_def resolveAndServe_keeps keepsBaseline_hset split: sum.splits)

lemma fileMethods_keeps: "outcomeKeeps rh (fileMethods opts env archive path sp req rh)"
  by (simp add: fileMethods_def putFile_keeps deleteFile_keeps getOrHead_keeps)

lemma extensionChannel_keeps:
  assumes "\<not> (reqMethod req = ''GET''
            \<and> \<not> str_includes (case hget req ''Accept'' of None \<Rightarrow> [] | Some a \<Rightarrow> a)
                  ''text/event-stream'')"
    and "extensionChannel env archive path req rh = Some out"
  shows "outcomeKeeps rh out"
  using assms
  by (auto simp: extensionChannel_def Let_def split: if_splits sum.splits option.splits)

lemma specialFolder_keeps:
  assumes "\<not> extensionChannelGet req path"
    and "specialFolder opts env archive path uv req rh = Some out"
  shows "outcomeKeeps rh out"
proof (cases "startsWith path EXTENSIONS_FOLDER \<and> path \<noteq> EXTENSIONS_FOLDER
              \<and> path \<noteq> SPECIAL_FOLDER \<and> \<not> startsWith path TAGS_FOLDER")
  case True
  with assms(2) have "extensionChannel env archive path req rh = Some out"
    by (simp add: specialFolder_def)
  moreover from True assms(1) have "\<not> (reqMethod req = ''GET''
            \<and> \<not> str_includes (case hget req ''Accept'' of None \<Rightarrow> [] | Some a \<Rightarrow> a)
                  ''text/event-stream'')"
    by (simp add: extensionChannelGet_def)
  ultimately show ?thesis by (rule extensionChannel_keeps[rotated])
next
  case False
  with assms(2) show ?thesis
    by (auto simp: specialFolder_def Let_def case_prod_beta tagsFolder_keeps extensionsRoot_keeps
          split: if_splits)
qed

lemma afterReady_keeps:
  assumes "\<not> extensionChannelGet req path"
  shows "outcomeKeeps (readyHeaders opts archive path rh0)
           (afterReady opts env archive path uv sp req rh0)"
proof (cases "if startsWith path SPECIAL_FOLDER
              then specialFolder opts env archive path uv req (readyHeaders opts archive path rh0)
              else None")
  case None
  then show ?thesis by (simp add: afterReady_def Let_def fileMethods_keeps)
next
  case (Some out)
  then have "specialFolder opts env archive path uv req (readyHeaders opts archive path rh0)
               = Some out"
    by (simp split: if_splits)
  from specialFolder_keeps[OF assms this] Some show ?thesis
    by (simp add: afterReady_def Let_def)
qed

lemma readyHeaders_lookup:
  \<open>map_of (readyHeaders opts archive path baseHeaders) ''Access-Control-Allow-Origin'' = Some ''*''\<close>
  \<open>map_of (readyHeaders opts archive path rh0) ''Link''
     = Some (''<bit://'' @ key archive @ path @ ''>; rel="canonical"'')\<close>
  \<open>map_of (readyHeaders opts archive path rh0) ''Allow''
     = Some (if opt_writable opts \<and> writable archive then ''GET, HEAD, PUT, POST, DELETE''
             else ''GET, HEAD'')\<close>
  \<open>map_of (readyHeaders opts archive path rh0) ''ETag'' = Some (etag archive)\<close>
  by (simp_all add: readyHeaders_def Let_def map_of_hset baseHeaders_def ALL_ALLOW_def
        READABLE_ALLOW_def WRITABLE_ALLOW_def)

lemma baseline_outside_extension_get:
  assumes "\<not> extensionChannelGet req path"
    and "respond (afterReady opts env archive path uv sp req baseHeaders) = Inr (r, a)"
  shows \<open>responseHeader r ''Access-Control-Allow-Origin'' = Some ''*''
       \<and> responseHeader r ''Link'' = Some (''<bit://'' @ key archive @ path @ ''>; rel="canonical"'')
       \<and> responseHeader r ''Allow''
           = Some (if opt_writable opts \<and> writable archive then ''GET, HEAD, PUT, POST, DELETE''
                   else ''GET, HEAD'')
       \<and> (\<exists>v. responseHeader r ''ETag'' = Some (''"'' @ show_nat v @ ''"''))\<close>
proof -
  let ?rh = "readyHeaders opts archive path baseHeaders"
  from afterReady_keeps[OF assms(1), of opts archive baseHeaders env uv sp]
  have k: "outcomeKeeps ?rh (afterReady opts env archive path uv sp req baseHeaders)" .
  from k assms(2) obtain h where h: "headers r = Some h" "keepsBaseline ?rh h"
    by (auto simp: outcomeKeeps_def respond_def catchBlock_def Let_def
          split: outcome.splits if_splits)
  from h show ?thesis
    by (auto simp: responseHeader_def keepsBaseline_def readyHeaders_lookup etag_def)
qed

lemma extension_get_headers_absent:
  assumes "extensionChannelGet req path"
    and "afterReady opts env archive path uv sp req rh0 = Return r a"
  shows "headers r = None \<and> header r = Some (readyHeaders opts archive path rh0)"
proof -
  from assms(1) have p: "startsWith path EXTENSIONS_FOLDER" "path \<noteq> EXTENSIONS_FOLDER"
    and m: "reqMethod req = ''GET''"
    and acc: "\<not> str_includes (case hget req ''Accept'' of None \<Rightarrow> [] | Some a \<Rightarrow> a)
                 ''text/event-stream''"
    by (simp_all add: extensionChannelGet_def)
  note pf = extension_path_facts[OF p(1)]
  from assms(2) pf p m acc show ?thesis
    by (auto simp: afterReady_def specialFolder_def extensionChannel_def Let_def await_def
          split: sum.splits)
qed

lemma keepsETag_simps [simp]:
  "keepsETag rh (Return (mkResponse c h d) a) = (map_of h ''ETag'' = map_of rh ''ETag'')"
  "keepsETag rh (Throw e h) = True"
  by (simp_all add: keepsETag_def mkResponse_def)

lemma keepsETag_await [simp]:
  "keepsETag rh (await x h k) = (case x of Inl e \<Rightarrow> True | Inr y \<Rightarrow> keepsETag rh (k y))"
  by (simp add: await_def split: sum.splits)

lemma renderFiles_ETag [simp]:
  "map_of (snd (renderFiles req h u p fs)) ''ETag'' = map_of h ''ETag''"
  by (simp add: renderFiles_def map_of_hset)

lemma serveFile_ETag [simp]:
  "map_of (fst (snd (serveFile env archive fp st req h))) ''ETag'' = map_of h ''ETag''"
  by (simp add: serveFile_def Let_def map_of_hset
        split: sum.splits option.splits range_result.splits list.splits prod.splits)

lemma getOrHead_ETag: "keepsETag rh (getOrHead env archive path sp req rh)"
  by (simp add: getOrHead_def resolveAndServe_def Let_def map_of_hset case_prod_beta
        split: sum.splits option.splits)

lemma tagsFolder_GET_ETag:
  "reqMethod req = ''GET'' \<Longrightarrow> keepsETag rh (tagsFolder opts env archive path uv req rh)"
  by (simp add: tagsFolder_def Let_def map_of_hset split: sum.splits)

lemma extensionsRoot_ETag: "keepsETag rh (extensionsRoot archive path req rh)"
  by (simp add: extensionsRoot_def Let_def map_of_hset case_prod_beta)

lemma get_etag_outside_extension_get:
  assumes "reqMethod req = ''GET''" and "\<not> extensionChannelGet req path"
    and "afterReady opts env archive path uv sp req rh0 = Return r a"
  shows "responseHeader r ''ETag'' = Some (etag archive)"
proof -
  let ?rh = "readyHeaders opts archive path rh0"
  have "keepsETag ?rh (afterReady opts env archive path uv sp req rh0)"
  proof (cases "if startsWith path SPECIAL_FOLDER
                then specialFolder opts env archive path uv req ?rh else None")
    case None
    then show ?thesis
      using assms(1) by (simp add: afterReady_def Let_def fileMethods_def getOrHead_ETag)
  next
    case (Some out)
    then have sf: "specialFolder opts env archive path uv req ?rh = Some out"
      by (simp split: if_splits)
    have "keepsETag ?rh out"
    proof (cases "startsWith path EXTENSIONS_FOLDER \<and> path \<noteq> EXTENSIONS_FOLDER
              \<and> path \<noteq> SPECIAL_FOLDER \<and> \<not> startsWith path TAGS_FOLDER")
      case True
      with sf have "extensionChannel env archive path req ?rh = Some out"
        by (simp add: specialFolder_def)
      with True assms(1,2) show ?thesis
        by (simp add: extensionChannel_def extensionChannelGet_def Let_def)
    next
      case False
      with sf assms(1) show ?thesis
        by (auto simp: specialFolder_def Let_def case_prod_beta tagsFolder_GET_ETag
              extensionsRoot_ETag split: if_splits)
    qed
    with Some show ?thesis by (simp add: afterReady_def Let_def)
  qed
  with assms(3) show ?thesis
    by (auto simp: keepsETag_def responseHeader_def readyHeaders_lookup)
qed

lemma write_refreshes_etag:
  assumes "writeOperation req path"
    and "afterReady opts env archive path uv sp req rh0 = Return r a"
  shows "\<exists>archive'. a = Some archive' \<and> statusCode r = 200
           \<and> responseHeader r ''ETag'' = Some (etag archive')"
  using assms(1) unfolding writeOperation_def
proof (elim disjE conjE)
  assume "reqMethod req = ''PUT''" "\<not> startsWith path SPECIAL_FOLDER"
  with assms(2) show ?thesis
    by (auto simp: afterReady_def fileMethods_def putFile_def Let_def await_def mkResponse_def
          responseHeader_def map_of_hset split: sum.splits)
next
  assume "reqMethod req = ''DELETE''" "\<not> startsWith path SPECIAL_FOLDER"
    "hget req ''x-clear'' \<noteq> Some ''cache''"
  with assms(2) show ?thesis
    by (auto simp: afterReady_def fileMethods_def deleteFile_def Let_def await_def mkResponse_def
          responseHeader_def map_of_hset split: sum.splits option.splits)
next
  assume m: "reqMethod req = ''PUT''" and t: "startsWith path TAGS_FOLDER"
  from startsWith_TAGS_special[OF t] m t assms(2) show ?thesis
    by (auto simp: afterReady_def specialFolder_def tagsFolder_def Let_def await_def
          mkResponse_def responseHeader_def map_of_hset split: sum.splits)
next
  assume m: "reqMethod req = ''DELETE''" and t: "startsWith path TAGS_FOLDER"
  from startsWith_TAGS_special[OF t] m t assms(2) show ?thesis
    by (auto simp: afterReady_def specialFolder_def tagsFolder_def Let_def await_def
          mkResponse_def responseHeader_def map_of_hset split: sum.splits)
qed

lemma example_prepare_extension:
  "prepare opts (exampleEnv exampleDrive) (exampleRequest m ''bit://abcd/$/extensions/chat'' hs) rh0
     = Inr (exampleDrive, ''/$/extensions/chat'', None, [])"
  by (simp add: prepare_defs example_defs)

lemma example_extension_get:
  assumes "map_of hs ''Accept'' = None \<or> map_of hs ''Accept'' = Some ''application/json''"
  shows "afterReady exampleOptions (exampleEnv exampleDrive) exampleDrive ''/$/extensions/chat'' None []
       (exampleRequest ''GET'' ''bit://abcd/$/extensions/chat'' hs) baseHeaders
     = Return \<lparr>statusCode = 200, statusText = None, headers = None,
               header = Some (readyHeaders exampleOptions exampleDrive ''/$/extensions/chat''
                                baseHeaders),
               data = JsonPeers []\<rparr>
         (Some (exampleDrive\<lparr>extensions := [''chat'']\<rparr>))"
  using assms
  by (auto simp: afterReady_def specialFolder_def extensionChannel_def getExtension_def
        getExtensionPeers_def Let_def startsWith_def SPECIAL_FOLDER_def TAGS_FOLDER_def
        TAGS_FOLDER_NAME_def EXTENSIONS_FOLDER_def EXTENSIONS_FOLDER_NAME_def
        exampleRequest_def hget_def exampleDrive_def)

text \<open>
  Claim C8. Every response produced once the archive is resolved and ready should carry,
  under \<^verbatim>\<open>headers\<close>, the baseline \<^verbatim>\<open>Access-Control-Allow-Origin\<close>, \<^verbatim>\<open>Link\<close>,
  \<^verbatim>\<open>Allow\<close> and \<^verbatim>\<open>ETag\<close>, the non-streaming GET of an extension channel included.
  The source returns that response with the property \<^verbatim>\<open>header\<close>: evaluated on
  \<^verbatim>\<open>GET bit://abcd/$/extensions/chat\<close>, the response has nothing under \<^verbatim>\<open>headers\<close>
  and the baseline sits under \<^verbatim>\<open>header\<close>.
\<close>

theorem extension_get_response_lacks_headers:
  "\<exists>r a. bitFetch exampleOptions (exampleEnv exampleDrive)
            (exampleRequest ''GET'' ''bit://abcd/$/extensions/chat'' []) = Inr (r, a)
         \<and> statusCode r = 200
         \<and> headers r = None
         \<and> header r = Some (readyHeaders exampleOptions exampleDrive ''/$/extensions/chat''
                              baseHeaders)
         \<and> responseHeader r ''Link'' = None
         \<and> responseHeader r ''Allow'' = None
         \<and> responseHeader r ''Access-Control-Allow-Origin'' = None"
proof -
  have s: "shouldIntercept exampleOptions
             (url (exampleRequest ''GET'' ''bit://abcd/$/extensions/chat'' []))"
    by (simp add: shouldIntercept_def startsWith_def exampleRequest_def)
  show ?thesis
    by (simp add: example_bitFetch_ready[OF s example_prepare_extension] example_extension_get
          respond_def responseHeader_def)
qed

text \<open>
  Claim C1. A successfully handled GET on an archive at version \<open>V\<close> should carry the
  \<^verbatim>\<open>ETag\<close> \<^verbatim>\<open>"V"\<close>. Evaluated on the GET of an extension channel of an archive at
  version 5, with status 200, the response has no \<^verbatim>\<open>ETag\<close> header: it is the response
  of claim C8, whose headers are under \<^verbatim>\<open>header\<close>.
\<close>

theorem extension_get_has_no_etag:
  "\<exists>r a. bitFetch exampleOptions (exampleEnv exampleDrive)
            (exampleRequest ''GET'' ''bit://abcd/$/extensions/chat''
               [(''Accept'', ''application/json'')]) = Inr (r, a)
         \<and> statusCode r = 200
         \<and> version exampleDrive = 5
         \<and> responseHeader r ''ETag'' = None"
proof -
  have s: "shouldIntercept exampleOptions
             (url (exampleRequest ''GET'' ''bit://abcd/$/extensions/chat''
                     [(''Accept'', ''application/json'')]))"
    by (simp add: shouldIntercept_def startsWith_def exampleRequest_def)
  have v: "version exampleDrive = 5" by (simp add: exampleDrive_def)
  show ?thesis
    by (simp add: example_bitFetch_ready[OF s example_prepare_extension] example_extension_get
          respond_def responseHeader_def v)
qed

section \<open>The change stream: events and listeners\<close>

lemma extensionStream_teardown_start:
  "extensionStream_teardown sid (extensionStream_start sid s) = s"
  by (simp add: extensionStream_start_def extensionStream_teardown_def on_def
        removeListener_def Let_def EXTENSION_EVENT_def PEER_OPEN_def PEER_REMOVE_def)

lemma changeStream_teardown_start:
  "changeStream_teardown sid (changeStream_start sid path s)
     = s\<lparr>watchers := filter (\<lambda>(i, _). i \<noteq> sid) (watchers s),
         content_listeners :=
           removeListener (content_listeners s) ''upload'' (sid, OnUploadContent)
             @ [(''upload'', (sid, OnUploadMetadata))]\<rparr>"
  by (simp add: changeStream_start_def changeStream_teardown_def on_def
        removeListener_def Let_def)

text \<open>
  Claim C6. In the change stream every upload of a block should be emitted as an event
  named \<^verbatim>\<open>upload\<close>, with the key of the feed it happened on as source. Evaluated on a
  stream started on an empty surface, with metadata key \<^verbatim>\<open>aa\<close> and content key
  \<^verbatim>\<open>bb\<close>: the upload of block 7 on the metadata feed is framed as an event named
  \<^verbatim>\<open>download\<close>, and so is the upload of block 7 on the content feed, which moreover
  carries the metadata key.
\<close>

theorem upload_events_emitted_as_download:
  \<open>map startReader_frame
      (emitBlock ''aa'' ''bb''
         (metadata_listeners (changeStream_start 1 ''/'' emptySurface)) ''upload'' 7 1)
     = [''event:download\<newline>data:{"index":7,"source":"aa"}\<newline>\<newline>'']
   \<and> map startReader_frame
      (emitBlock ''aa'' ''bb''
         (content_listeners (changeStream_start 1 ''/'' emptySurface)) ''upload'' 7 1)
     = [''event:download\<newline>data:{"index":7,"source":"aa"}\<newline>\<newline>'']\<close>
  by (simp add: changeStream_start_def emptySurface_def on_def emitBlock_def
        List.map_filter_def startReader_frame_def JSON_stringify_def show_nat_examples Let_def)

text \<open>
  Claim C7. The teardown of a stream should remove every listener the stream attached.
  The extension stream does (\<open>extensionStream_teardown_start\<close>). Evaluated on a change
  stream started on an empty surface and torn down: the listener attached to the content
  feed for \<^verbatim>\<open>upload\<close> is still registered, because the teardown removes
  \<^verbatim>\<open>onUploadContent\<close>, which was never attached, where \<^verbatim>\<open>onUploadMetadata\<close> had
  been attached.
\<close>

theorem change_stream_teardown_leaves_listener:
  "content_listeners (changeStream_teardown 1 (changeStream_start 1 ''/'' emptySurface))
     = [(''upload'', (1, OnUploadMetadata))]
   \<and> registered 1 (changeStream_teardown 1 (changeStream_start 1 ''/'' emptySurface))
     = [(''upload'', (1, OnUploadMetadata))]"
  by (simp add: changeStream_start_def changeStream_teardown_def emptySurface_def on_def
        removeListener_def registered_def Let_def)

section \<open>Whole calls on the example collaborator\<close>

text \<open>
  Two runs through \<open>bitFetch\<close> itself. A PUT of the tag \<^verbatim>\<open>v1\<close> on the drive at version
  5 returns \<^verbatim>\<open>5\<close> and leaves the drive at version 6 with the tag; the GET of the tag on
  the drive as the PUT left it returns \<^verbatim>\<open>5\<close> with the \<^verbatim>\<open>ETag\<close> \<^verbatim>\<open>"6"\<close>. A GET of
  the 100-byte file with \<^verbatim>\<open>Range: bytes=0-49\<close> is answered 206, and with a range of
  another type 200.
\<close>

lemma example_tag_put_then_get:
  \<open>\<exists>r1 r2 d1.
     bitFetch exampleOptions (exampleEnv exampleDrive)
       (exampleRequest ''PUT'' ''bit://abcd/$/tags/v1'' []) = Inr (r1, Some d1)
     \<and> data r1 = Text ''5'' \<and> version d1 = 6 \<and> responseHeader r1 ''ETag'' = Some ''"6"''
     \<and> bitFetch exampleOptions (exampleEnv d1)
         (exampleRequest ''GET'' ''bit://abcd/$/tags/v1'' []) = Inr (r2, Some d1)
     \<and> statusCode r2 = 200 \<and> data r2 = Text ''5'' \<and> responseHeader r2 ''ETag'' = Some ''"6"''\<close>
proof -
  let ?d1 = "exampleDrive\<lparr>version := 6, store := [(''v1'', 5)]\<rparr>"
  have s: "shouldIntercept exampleOptions (url (exampleRequest m ''bit://abcd/$/tags/v1'' []))" for m
    by (simp add: shouldIntercept_def startsWith_def exampleRequest_def)
  have p2: "prepare exampleOptions (exampleEnv ?d1)
              (exampleRequest ''GET'' ''bit://abcd/$/tags/v1'' []) baseHeaders
            = Inr (?d1, ''/$/tags/v1'', None, [])"
    by (simp add: prepare_defs example_defs)
  have tp: "''/$/tags/v1'' = TAGS_FOLDER @ ''v1''"
    by (simp add: TAGS_FOLDER_def SPECIAL_FOLDER_def TAGS_FOLDER_NAME_def)
  have put: "afterReady exampleOptions (exampleEnv exampleDrive) exampleDrive ''/$/tags/v1'' None []
               (exampleRequest ''PUT'' ''bit://abcd/$/tags/v1'' []) baseHeaders
             = Return (mkResponse 200
                 (hset ''ETag'' (etag ?d1)
                    (hset ''Content-Type'' ''text/plain; charset=utf-8''
                       (readyHeaders exampleOptions exampleDrive ''/$/tags/v1'' baseHeaders)))
                 (Text ''5'')) (Some ?d1)"
    unfolding tp
    by (simp add: tagsRoute tagsFolder_def tag_path_facts Let_def checkWritable_def
          exampleOptions_def exampleRequest_def exampleDrive_def show_nat_examples)
  have get: "afterReady exampleOptions (exampleEnv ?d1) ?d1 ''/$/tags/v1'' None []
               (exampleRequest ''GET'' ''bit://abcd/$/tags/v1'' []) baseHeaders
             = Return (mkResponse 200 (readyHeaders exampleOptions ?d1 ''/$/tags/v1'' baseHeaders)
                 (Text ''5'')) (Some ?d1)"
    unfolding tp
    by (simp add: tagsRoute tagsFolder_def tag_path_facts Let_def exampleRequest_def
          show_nat_examples)
  have e: "etag ?d1 = ''\"6\"''"
    by (simp add: etag_def show_nat_examples)
  show ?thesis
    by (simp add: example_bitFetch_ready[OF s example_prepare_tag] example_bitFetch_ready[OF s p2] put get
          respond_def mkResponse_def responseHeader_def map_of_hset readyHeaders_lookup e)
qed

lemma example_prepare_hello:
  "prepare opts (exampleEnv exampleDrive) (exampleRequest m ''bit://abcd/hello.txt'' hs) rh0
     = Inr (exampleDrive, ''/hello.txt'', None, [])"
  by (simp add: prepare_defs example_defs)

lemma example_afterReady_hello:
  assumes "map_of hs ''Accept'' = None" "map_of hs ''x-download'' = None"
  shows "afterReady opts (exampleEnv exampleDrive) exampleDrive ''/hello.txt'' None []
           (exampleRequest ''GET'' ''bit://abcd/hello.txt'' hs) rh0
         = resolveAndServe (exampleEnv exampleDrive) exampleDrive ''/hello.txt'' []
             (exampleRequest ''GET'' ''bit://abcd/hello.txt'' hs)
             (readyHeaders opts exampleDrive ''/hello.txt'' rh0)"
  using assms
  by (simp add: afterReady_def fileMethods_def getOrHead_def Let_def startsWith_def
        SPECIAL_FOLDER_def exampleRequest_def hget_def)

lemma example_range_get:
  "\<exists>r a. bitFetch exampleOptions (exampleEnv exampleDrive)
            (exampleRequest ''GET'' ''bit://abcd/hello.txt'' [(''Range'', ''bytes=0-49'')])
          = Inr (r, a)
     \<and> statusCode r = 206
     \<and> responseHeader r ''Content-Range'' = Some ''bytes 0-49/100''
     \<and> responseHeader r ''Content-Length'' = Some ''50''
     \<and> data r = ReadStream ''/hello.txt'' (Some (0, 49))"
proof -
  have s: "shouldIntercept exampleOptions
             (url (exampleRequest ''GET'' ''bit://abcd/hello.txt'' [(''Range'', ''bytes=0-49'')]))"
    by (simp add: shouldIntercept_def startsWith_def exampleRequest_def)
  show ?thesis
    by (simp add: example_bitFetch_ready[OF s example_prepare_hello] example_afterReady_hello)
       (simp add: resolveAndServe_def resolveStat_def serveFile_def isRanged_def hget_def
          exampleRequest_def exampleParseRange_def helloStat_def Let_def respond_def
          mkResponse_def responseHeader_def map_of_hset show_int_def show_nat_examples)
qed

lemma example_other_range_type_get:
  "\<exists>r a. bitFetch exampleOptions (exampleEnv exampleDrive)
            (exampleRequest ''GET'' ''bit://abcd/hello.txt'' [(''Range'', ''items=0-49'')])
          = Inr (r, a)
     \<and> statusCode r = 200
     \<and> responseHeader r ''Content-Length'' = Some ''100''
     \<and> data r = ReadStream ''/hello.txt'' None"
proof -
  have s: "shouldIntercept exampleOptions
             (url (exampleRequest ''GET'' ''bit://abcd/hello.txt'' [(''Range'', ''items=0-49'')]))"
    by (simp add: shouldIntercept_def startsWith_def exampleRequest_def)
  show ?thesis
    by (simp add: example_bitFetch_ready[OF s example_prepare_hello] example_afterReady_hello)
       (simp add: resolveAndServe_def resolveStat_def serveFile_def isRanged_def hget_def
          exampleRequest_def exampleParseRange_def helloStat_def Let_def respond_def
          mkResponse_def responseHeader_def map_of_hset show_int_def show_nat_examples)
qed

end
